theory Spec2Isabelle
  imports Main "HOL-Library.AList"
begin

section \<open>Python values, exceptions and outcomes\<close>

text \<open>
  The libvirtd backend of nixops (\<^verbatim>\<open>src/nixops/backends/libvirtd.py\<close>, Python 2) is
  embedded shallowly. Every exception the code can raise is a value of \<open>error\<close>.
  \<open>CommandFailed\<close> is what \<^verbatim>\<open>_logged_exec\<close> raises on a nonzero exit status,
  \<open>CalledProcessError\<close> what \<^verbatim>\<open>subprocess.check_output\<close> raises, and
  \<open>EnvironmentError\<close> stands for the IOError/OSError of a failed file operation.
  \<open>FormatUnsupported\<close> is not a Python exception: it marks a replacement field of
  \<^verbatim>\<open>str.format\<close> outside the fragment modelled below.
\<close>

datatype error =
    AssertionError
  | AttributeError
  | TypeError
  | ValueError
  | IndexError
  | Exception string
  | CommandFailed
  | CalledProcessError
  | EnvironmentError
  | FormatUnsupported

text \<open>
  A method of the state object runs against the persisted attributes of the object and
  the outside world. It ends by returning, by raising, or not at all; the attributes
  written before a raise stay written (each assignment to an \<^verbatim>\<open>attr_property\<close> is
  stored at once), so the state and the trace are part of every outcome.
\<close>

datatype 'a outcome = Return 'a | Raise error | OutOfFuel

definition bind ::
  "'a outcome \<times> 's \<times> 't \<Rightarrow> ('a \<Rightarrow> 's \<Rightarrow> 't \<Rightarrow> 'b outcome \<times> 's \<times> 't) \<Rightarrow> 'b outcome \<times> 's \<times> 't" where
  "bind m f =
     (case m of (r, st, tr) \<Rightarrow>
        (case r of
           Return a \<Rightarrow> f a st tr
         | Raise e \<Rightarrow> (Raise e, st, tr)
         | OutOfFuel \<Rightarrow> (OutOfFuel, st, tr)))"

definition and_then :: "error + 'a \<Rightarrow> ('a \<Rightarrow> error + 'b) \<Rightarrow> error + 'b" where
  "and_then m f = (case m of Inl e \<Rightarrow> Inl e | Inr a \<Rightarrow> f a)"

definition lift :: "error + 'a \<Rightarrow> 's \<Rightarrow> 't \<Rightarrow> 'a outcome \<times> 's \<times> 't" where
  "lift m st tr = (case m of Inl e \<Rightarrow> (Raise e, st, tr) | Inr a \<Rightarrow> (Return a, st, tr))"

text \<open>Truthiness of an attribute that holds \<^verbatim>\<open>None\<close> or a string.\<close>

definition truthy :: "string option \<Rightarrow> bool" where
  "truthy v = (case v of None \<Rightarrow> False | Some s \<Rightarrow> s \<noteq> [])"

text \<open>\<^verbatim>\<open>str(x)\<close> as \<^verbatim>\<open>format\<close> applies it to an argument that is a string or None.\<close>

definition py_str :: "string option \<Rightarrow> string" where
  "py_str v = (case v of None \<Rightarrow> ''None'' | Some s \<Rightarrow> s)"

section \<open>Strings\<close>

text \<open>\<^verbatim>\<open>sep.join(xs)\<close>.\<close>

fun py_join :: "string \<Rightarrow> string list \<Rightarrow> string" where
  "py_join sep [] = []"
| "py_join sep [x] = x"
| "py_join sep (x # y # ys) = x @ sep @ py_join sep (y # ys)"

text \<open>
  \<^verbatim>\<open>s.split()\<close> with no argument: the maximal runs of non-whitespace characters, in
  order. The whitespace of a Python 2 byte string is space, tab, newline, vertical tab,
  form feed and carriage return.
\<close>

definition is_space :: "char \<Rightarrow> bool" where
  "is_space c = (c \<in> set [CHR 0x20, CHR 0x09, CHR 0x0A, CHR 0x0B, CHR 0x0C, CHR 0x0D])"

fun split_ws :: "string \<Rightarrow> string \<Rightarrow> string list" where
  "split_ws cur [] = (if cur = [] then [] else [cur])"
| "split_ws cur (c # cs) =
     (if is_space c then (if cur = [] then split_ws [] cs else cur # split_ws [] cs)
      else split_ws (cur @ [c]) cs)"

definition py_split :: "string \<Rightarrow> string list" where
  "py_split s = split_ws [] s"

text \<open>\<^verbatim>\<open>s.split(c)[0]\<close>: the part of \<open>s\<close> before the first \<open>c\<close>.\<close>

definition split_first :: "char \<Rightarrow> string \<Rightarrow> string" where
  "split_first c s = takeWhile (\<lambda>x. x \<noteq> c) s"

text \<open>\<^verbatim>\<open>s.rstrip()\<close>.\<close>

definition rstrip :: "string \<Rightarrow> string" where
  "rstrip s = rev (dropWhile is_space (rev s))"

text \<open>\<^verbatim>\<open>xs.index(x)\<close>: the first position of \<open>x\<close>; None where Python raises ValueError.\<close>

fun list_index :: "'a list \<Rightarrow> 'a \<Rightarrow> nat option" where
  "list_index [] x = None"
| "list_index (y # ys) x = (if y = x then Some 0 else map_option Suc (list_index ys x))"

text \<open>\<^verbatim>\<open>string.find(s, sub) != -1\<close>: \<open>sub\<close> occurs in \<open>s\<close> as a contiguous run.\<close>

fun starts_with :: "string \<Rightarrow> string \<Rightarrow> bool" where
  "starts_with s [] = True"
| "starts_with [] (c # cs) = False"
| "starts_with (x # xs) (c # cs) = (x = c \<and> starts_with xs cs)"

fun contains :: "string \<Rightarrow> string \<Rightarrow> bool" where
  "contains [] sub = (sub = [])"
| "contains (x # xs) sub = (starts_with (x # xs) sub \<or> contains xs sub)"

section \<open>The machine definition\<close>

text \<open>
  What \<^verbatim>\<open>LibvirtdDefinition.__init__\<close> stores. \<^verbatim>\<open>Element.get("value")\<close> is None
  when the attribute is absent, so a field read that way is optional; \<open>image_dir\<close> is
  asserted not to be None. A disk entry is the dict with the keys device and size, and
  \<open>disks\<close> is the dict of the entries by name, kept as an association list.
\<close>

record disk_defn =
  defn_device :: "string option"
  defn_size :: "string option"

record LibvirtdDefinition =
  vcpu :: "string option"
  memory_size :: "string option"
  extra_devices :: "string option"
  extra_domain :: "string option"
  headless :: bool
  image_dir :: string
  networks :: "string option list"
  disks :: "(string option \<times> disk_defn) list"

section \<open>The machine state and the outside world\<close>

text \<open>
  \<^verbatim>\<open>self.depl\<close> and \<^verbatim>\<open>self.name\<close>: the deployment's attributes this backend reads.
  \<open>eval_flags\<close> is the value of \<^verbatim>\<open>self.depl._eval_flags(self.depl.nix_exprs)\<close> and
  \<open>nix_path_flags\<close> that of \<^verbatim>\<open>self.depl._nix_path_flags()\<close>; both methods belong to the
  deployment class, which is outside this backend.
\<close>

record deployment =
  uuid :: string
  tempdir :: string
  eval_flags :: "string list"
  nix_path_flags :: "string list"

text \<open>An entry of \<^verbatim>\<open>self.extra_disks\<close>: the dict with the keys device and imagePath.\<close>

record extra_disk =
  device :: "string option"
  imagePath :: string

text \<open>
  The persisted attributes. An \<^verbatim>\<open>attr_property\<close> with default None is a field of
  type \<open>string option\<close>; \<open>extra_disks\<close> is a dict, kept as an association list whose
  order stands for the dict's iteration order. \<open>vm_id\<close> and \<open>state\<close> are attributes of
  the base class \<^verbatim>\<open>MachineState\<close>, \<open>STOPPED\<close> is its class constant, and \<open>common\<close>
  holds whatever else the base class keeps (written only by \<^verbatim>\<open>set_common_state\<close>).
\<close>

record 'c LibvirtdState =
  depl :: deployment
  name :: string
  STOPPED :: nat
  common :: 'c
  state :: nat
  vm_id :: "string option"
  private_ipv4 :: "string option"
  client_public_key :: "string option"
  client_private_key :: "string option"
  primary_net :: "string option"
  primary_mac :: "string option"
  domain_xml :: "string option"
  disk_path :: "string option"
  extra_disks :: "(string option \<times> extra_disk) list"

text \<open>
  Every interaction with the outside world is an event of the trace, in the order the
  code performs it. \<open>Exec cmd vars\<close> is \<^verbatim>\<open>_logged_exec(cmd)\<close>, with the variables the
  call adds to the process environment.
\<close>

datatype event =
    Exec "string list" "(string \<times> string) list"
  | CheckOutput "string list"
  | Access string
  | PathExists string
  | CopyFile string string
  | Chmod string nat
  | WriteFile string string
  | Unlink string
  | FindExecutable string
  | RandInt nat nat
  | CreateKeyPair
  | Sleep nat
  | Log string
  | LogStart string
  | LogContinue string
  | LogEnd string

text \<open>
  The outside world answers each interaction as a function of everything that happened
  before it (the trace so far), so an environment may answer the same question
  differently at different times. \<open>None\<close> from \<open>exec_result\<close> or
  \<open>check_output_result\<close> is a nonzero exit status; \<open>file_op_ok\<close> tells whether a
  file operation succeeds; \<open>randint_raw\<close> is the entropy a call of
  \<^verbatim>\<open>random.randint\<close> consumes. \<open>set_common_state\<close> and \<open>create_key_pair_result\<close>
  stand for the base class method and \<^verbatim>\<open>nixops.util.create_key_pair\<close>.
\<close>

record 'c env =
  exec_result :: "event list \<Rightarrow> event \<Rightarrow> string option"
  check_output_result :: "event list \<Rightarrow> string list \<Rightarrow> string option"
  access_result :: "event list \<Rightarrow> string \<Rightarrow> bool"
  exists_result :: "event list \<Rightarrow> string \<Rightarrow> bool"
  file_op_ok :: "event list \<Rightarrow> event \<Rightarrow> bool"
  find_executable_result :: "event list \<Rightarrow> string \<Rightarrow> string option"
  randint_raw :: "event list \<Rightarrow> nat"
  create_key_pair_result :: "event list \<Rightarrow> string \<times> string"
  set_common_state :: "LibvirtdDefinition \<Rightarrow> 'c \<Rightarrow> 'c"

subsection \<open>The primitive interactions\<close>

text \<open>
  \<^verbatim>\<open>self._logged_exec(command, env=...)\<close>. A command list that holds None makes
  \<^verbatim>\<open>subprocess.Popen\<close> raise TypeError before any program runs.
\<close>

definition logged_exec ::
  "'c env \<Rightarrow> string option list \<Rightarrow> (string \<times> string) list \<Rightarrow> 's \<Rightarrow> event list
     \<Rightarrow> string outcome \<times> 's \<times> event list" where
  "logged_exec env cmd vars st tr =
     (if None \<in> set cmd then (Raise TypeError, st, tr)
      else (case exec_result env tr (Exec (map the cmd) vars) of
              None \<Rightarrow> (Raise CommandFailed, st, tr @ [Exec (map the cmd) vars])
            | Some out \<Rightarrow> (Return out, st, tr @ [Exec (map the cmd) vars])))"

text \<open>\<^verbatim>\<open>subprocess.check_output(cmd)\<close>.\<close>

definition check_output ::
  "'c env \<Rightarrow> string option list \<Rightarrow> 's \<Rightarrow> event list \<Rightarrow> string outcome \<times> 's \<times> event list" where
  "check_output env cmd st tr =
     (if None \<in> set cmd then (Raise TypeError, st, tr)
      else (case check_output_result env tr (map the cmd) of
              None \<Rightarrow> (Raise CalledProcessError, st, tr @ [CheckOutput (map the cmd)])
            | Some out \<Rightarrow> (Return out, st, tr @ [CheckOutput (map the cmd)])))"

text \<open>\<^verbatim>\<open>os.access(path, os.W_OK)\<close> and \<^verbatim>\<open>os.path.exists(path)\<close>.\<close>

definition os_access :: "'c env \<Rightarrow> string \<Rightarrow> 's \<Rightarrow> event list \<Rightarrow> bool outcome \<times> 's \<times> event list" where
  "os_access env path st tr = (Return (access_result env tr path), st, tr @ [Access path])"

definition os_path_exists :: "'c env \<Rightarrow> string \<Rightarrow> 's \<Rightarrow> event list \<Rightarrow> bool outcome \<times> 's \<times> event list" where
  "os_path_exists env path st tr = (Return (exists_result env tr path), st, tr @ [PathExists path])"

text \<open>
  \<^verbatim>\<open>shutil.copyfile\<close>, \<^verbatim>\<open>os.chmod\<close>, \<^verbatim>\<open>nixops.util.write_file\<close> and
  \<^verbatim>\<open>os.unlink\<close>: the operation \<open>ev\<close> either happens or raises.
\<close>

definition file_op :: "'c env \<Rightarrow> event \<Rightarrow> 's \<Rightarrow> event list \<Rightarrow> unit outcome \<times> 's \<times> event list" where
  "file_op env ev st tr =
     (if file_op_ok env tr ev then (Return (), st, tr @ [ev])
      else (Raise EnvironmentError, st, tr @ [ev]))"

text \<open>\<^verbatim>\<open>self.log\<close>, \<^verbatim>\<open>log_start\<close>, \<^verbatim>\<open>log_continue\<close>, \<^verbatim>\<open>log_end\<close> and \<^verbatim>\<open>time.sleep\<close>.\<close>

definition emit :: "event \<Rightarrow> 's \<Rightarrow> event list \<Rightarrow> unit outcome \<times> 's \<times> event list" where
  "emit ev st tr = (Return (), st, tr @ [ev])"

section \<open>Resolving the address: \<^verbatim>\<open>_parse_ip\<close>\<close>

text \<open>
  Lines 247 to 253: the lease table \<open>lines\<close> is split at whitespace, the MAC is looked
  up with \<^verbatim>\<open>index\<close> (a ValueError is swallowed and the method returns None), and the
  token two places further is read and cut at the first slash. Reading past the end of
  the token list raises IndexError, which nothing catches. \<open>primary_mac\<close> may be None,
  which equals no token.
\<close>

definition find_lease :: "string \<Rightarrow> string option \<Rightarrow> error + string option" where
  "find_lease lines mac =
     (case (case mac of None \<Rightarrow> None | Some m \<Rightarrow> list_index (py_split lines) m) of
        None \<Rightarrow> Inr None
      | Some i \<Rightarrow>
          (if i + 2 < length (py_split lines)
           then Inr (Some (split_first CHR ''/'' (py_split lines ! (i + 2))))
           else Inl IndexError))"

definition parse_ip ::
  "'c env \<Rightarrow> 'c LibvirtdState \<Rightarrow> event list
     \<Rightarrow> string option outcome \<times> 'c LibvirtdState \<times> event list" where
  "parse_ip env st tr =
     bind (check_output env
             [Some ''virsh'', Some ''-c'', Some ''qemu:///system'', Some ''net-dhcp-leases'',
              Some ''--network'', primary_net st] st tr)
       (\<lambda>lines st tr. lift (find_lease lines (primary_mac st)) st tr)"

section \<open>The primary MAC address: \<^verbatim>\<open>_generate_primary_mac\<close>\<close>

text \<open>
  \<^verbatim>\<open>random.randint(a, b)\<close> returns an integer \<open>N\<close> with \<open>a \<le> N \<le> b\<close>
  (ValueError for an empty range): the entropy of the call, reduced to the range.
\<close>

definition randint :: "'c env \<Rightarrow> nat \<Rightarrow> nat \<Rightarrow> 's \<Rightarrow> event list \<Rightarrow> nat outcome \<times> 's \<times> event list" where
  "randint env a b st tr =
     (if b < a then (Raise ValueError, st, tr)
      else (Return (a + randint_raw env tr mod (b - a + 1)), st, tr @ [RandInt a b]))"

text \<open>\<^verbatim>\<open>"%02x" % x\<close>: lower-case hexadecimal, padded with zeros to two digits.\<close>

fun hex_digits :: "nat \<Rightarrow> string" where
  "hex_digits n =
     (if n < 16 then [''0123456789abcdef'' ! n]
      else hex_digits (n div 16) @ [''0123456789abcdef'' ! (n mod 16)])"

definition fmt_02x :: "nat \<Rightarrow> string" where
  "fmt_02x n = replicate (2 - length (hex_digits n)) (CHR ''0'') @ hex_digits n"

definition generate_primary_mac ::
  "'c env \<Rightarrow> 'c LibvirtdState \<Rightarrow> event list \<Rightarrow> unit outcome \<times> 'c LibvirtdState \<times> event list" where
  "generate_primary_mac env st tr =
     bind (randint env 0x00 0x7f st tr) (\<lambda>o4 st tr.
     bind (randint env 0x00 0xff st tr) (\<lambda>o5 st tr.
     bind (randint env 0x00 0xff st tr) (\<lambda>o6 st tr.
       (Return (),
        st \<lparr> primary_mac := Some (py_join '':'' (map fmt_02x [0x52, 0x54, 0x00, o4, o5, o6])) \<rparr>,
        tr))))"

section \<open>\<^verbatim>\<open>str.format\<close>\<close>

text \<open>
  The templates of this backend use positional fields \<^verbatim>\<open>{0}\<close> to \<^verbatim>\<open>{4}\<close> only, but
  the rendered disk and interface elements and the two raw XML fragments of the
  definition become part of the outer template, so their braces are read as markup too.
  The model reads a template from left to right as Python does: \<^verbatim>\<open>{{\<close> and
  \<^verbatim>\<open>}}\<close> are the escaped braces, \<^verbatim>\<open>{N}\<close> is replaced by argument \<open>N\<close>
  (IndexError when there is none), a lone brace is a ValueError. A field that is not a
  plain decimal index (a name, a conversion, a format specification, automatic
  numbering) is outside the model and yields \<open>FormatUnsupported\<close>.
\<close>

datatype fmt_state = Lit | Open | Field string | Close

definition is_digit :: "char \<Rightarrow> bool" where
  "is_digit c = (c \<in> set ''0123456789'')"

definition nat_of_digits :: "string \<Rightarrow> nat" where
  "nat_of_digits ds = foldl (\<lambda>n c. 10 * n + (of_char c - 48)) 0 ds"

fun format_from :: "fmt_state \<Rightarrow> string \<Rightarrow> string list \<Rightarrow> error + string" where
  "format_from Lit [] args = Inr []"
| "format_from Open [] args = Inl ValueError"
| "format_from (Field ds) [] args = Inl ValueError"
| "format_from Close [] args = Inl ValueError"
| "format_from Lit (c # cs) args =
     (if c = CHR ''{'' then format_from Open cs args
      else if c = CHR ''}'' then format_from Close cs args
      else and_then (format_from Lit cs args) (\<lambda>r. Inr (c # r)))"
| "format_from Open (c # cs) args =
     (if c = CHR ''{'' then and_then (format_from Lit cs args) (\<lambda>r. Inr (CHR ''{'' # r))
      else if is_digit c then format_from (Field [c]) cs args
      else Inl FormatUnsupported)"
| "format_from (Field ds) (c # cs) args =
     (if c = CHR ''}'' then
        (if nat_of_digits ds < length args
         then and_then (format_from Lit cs args) (\<lambda>r. Inr (args ! nat_of_digits ds @ r))
         else Inl IndexError)
      else if is_digit c then format_from (Field (ds @ [c])) cs args
      else Inl FormatUnsupported)"
| "format_from Close (c # cs) args =
     (if c = CHR ''}'' then and_then (format_from Lit cs args) (\<lambda>r. Inr (CHR ''}'' # r))
      else Inl ValueError)"

definition py_format :: "string \<Rightarrow> string list \<Rightarrow> error + string" where
  "py_format template args = format_from Lit template args"

text \<open>A list comprehension whose element expression can raise: the first raise wins.\<close>

fun map_raising :: "('a \<Rightarrow> error + 'b) \<Rightarrow> 'a list \<Rightarrow> error + 'b list" where
  "map_raising f [] = Inr []"
| "map_raising f (x # xs) =
     and_then (f x) (\<lambda>y. and_then (map_raising f xs) (\<lambda>ys. Inr (y # ys)))"

section \<open>The domain descriptor: \<^verbatim>\<open>_make_domain_xml\<close>\<close>

text \<open>
  \<^verbatim>\<open>_vm_id\<close> and \<^verbatim>\<open>_disk_path\<close> format fixed templates with strings that are not
  read as markup again, so they are concatenations.
\<close>

definition vm_id_of :: "'c LibvirtdState \<Rightarrow> string" where
  "vm_id_of st = ''nixops-'' @ uuid (depl st) @ ''-'' @ name st"

definition disk_path_of :: "LibvirtdDefinition \<Rightarrow> 'c LibvirtdState \<Rightarrow> string" where
  "disk_path_of defn st = image_dir defn @ ''/'' @ vm_id_of st @ ''.img''"

definition find_executable ::
  "'c env \<Rightarrow> string \<Rightarrow> 's \<Rightarrow> event list \<Rightarrow> string option outcome \<times> 's \<times> event list" where
  "find_executable env prog st tr =
     (Return (find_executable_result env tr prog), st, tr @ [FindExecutable prog])"

definition maybe_mac :: "'c LibvirtdState \<Rightarrow> string option \<Rightarrow> error + string" where
  "maybe_mac st n =
     (if n = primary_net st then
        (case primary_mac st of
           None \<Rightarrow> Inl TypeError
         | Some mac \<Rightarrow> Inr (''<mac address=\"'' @ mac @ ''\" />''))
      else Inr '''')"

definition iface :: "'c LibvirtdState \<Rightarrow> string option \<Rightarrow> error + string" where
  "iface st n =
     and_then (maybe_mac st n) (\<lambda>m.
       py_format
         (py_join ''\<newline>''
            [''    <interface type=\"network\">'',
             m,
             ''      <source network=\"{0}\"/>'',
             ''      <model type=\"virtio\"/>'',
             ''    </interface>''])
         [py_str n])"

definition disk_xml :: "string option \<Rightarrow> extra_disk \<Rightarrow> error + string" where
  "disk_xml disk_name disk_state =
     py_format
       (py_join ''\<newline>''
          [''    <disk type=\"file\" device=\"disk\">'',
           ''      <driver name=\"qemu\" type=\"qcow2\"/>'',
           ''      <source file=\"{0}\"/>'',
           ''      <target dev=\"{1}\"/>'',
           ''    </disk>''])
       [imagePath disk_state, py_str (device disk_state)]"

text \<open>
  The list literal is built first (the two comprehensions in order), then joined
  (TypeError when one of the raw fragments is None), then formatted.
\<close>

definition domain_fmt :: "LibvirtdDefinition \<Rightarrow> string list \<Rightarrow> string list \<Rightarrow> error + string" where
  "domain_fmt defn disk_elems iface_elems =
     (case (extra_devices defn, extra_domain defn) of
        (Some devices, Some domain) \<Rightarrow>
          Inr (py_join ''\<newline>''
            [''<domain type=\"kvm\">'',
             ''  <name>{0}</name>'',
             ''  <memory unit=\"MiB\">{1}</memory>'',
             ''  <vcpu>{4}</vcpu>'',
             ''  <cpu>'',
             ''    <topology sockets=\"1\" cores=\"{4}\" threads=\"1\"/>'',
             ''  </cpu>'',
             ''  <os>'',
             ''    <type arch=\"x86_64\">hvm</type>'',
             ''  </os>'',
             ''  <devices>'',
             ''    <emulator>{2}</emulator>'',
             ''    <disk type=\"file\" device=\"disk\">'',
             ''      <driver name=\"qemu\" type=\"qcow2\"/>'',
             ''      <source file=\"{3}\"/>'',
             ''      <target dev=\"hda\"/>'',
             ''    </disk>'',
             py_join ''\<newline>'' disk_elems,
             py_join ''\<newline>'' iface_elems,
             (if \<not> headless defn then ''    <graphics type=\"sdl\" display=\":0.0\"/>'' else ''''),
             ''    <input type=\"keyboard\" bus=\"usb\"/>'',
             ''    <input type=\"mouse\" bus=\"usb\"/>'',
             devices,
             ''  </devices>'',
             domain,
             ''</domain>''])
      | _ \<Rightarrow> Inl TypeError)"

definition make_domain_xml ::
  "'c env \<Rightarrow> LibvirtdDefinition \<Rightarrow> 'c LibvirtdState \<Rightarrow> event list
     \<Rightarrow> string outcome \<times> 'c LibvirtdState \<times> event list" where
  "make_domain_xml env defn st tr =
     bind (find_executable env ''qemu-system-x86_64'' st tr) (\<lambda>qemu st tr.
       (case qemu of
          None \<Rightarrow> (Raise AssertionError, st, tr)
        | Some qemu \<Rightarrow>
            lift
              (and_then (map_raising (\<lambda>(disk_name, disk_state). disk_xml disk_name disk_state)
                           (extra_disks st)) (\<lambda>disk_elems.
               and_then (map_raising (iface st) (networks defn)) (\<lambda>iface_elems.
               and_then (domain_fmt defn disk_elems iface_elems) (\<lambda>template.
                 py_format template
                   [vm_id_of st, py_str (memory_size defn), qemu, disk_path_of defn st,
                    py_str (vcpu defn)]))))
              st tr))"

section \<open>The lifecycle: start, stop, destroy and create\<close>

definition is_running ::
  "'c env \<Rightarrow> 'c LibvirtdState \<Rightarrow> event list \<Rightarrow> bool outcome \<times> 'c LibvirtdState \<times> event list" where
  "is_running env st tr =
     bind (check_output env [Some ''virsh'', Some ''-c'', Some ''qemu:///system'', Some ''list''] st tr)
       (\<lambda>ls st tr.
          (case vm_id st of
             None \<Rightarrow> (Raise TypeError, st, tr)
           | Some v \<Rightarrow> (Return (contains ls v), st, tr)))"

text \<open>
  The polling loop of \<^verbatim>\<open>_wait_for_ip\<close> has no bound in the source. The model gives it
  fuel, one unit for each lookup; \<open>OutOfFuel\<close> is the outcome of a run that is still
  polling when the fuel is spent.
\<close>

fun wait_loop ::
  "nat \<Rightarrow> 'c env \<Rightarrow> 'c LibvirtdState \<Rightarrow> event list \<Rightarrow> unit outcome \<times> 'c LibvirtdState \<times> event list" where
  "wait_loop 0 env st tr = (OutOfFuel, st, tr)"
| "wait_loop (Suc fuel) env st tr =
     bind (parse_ip env st tr) (\<lambda>ip st tr.
       if truthy ip then (Return (), st \<lparr> private_ipv4 := ip \<rparr>, tr)
       else
         bind (emit (Sleep 1) st tr) (\<lambda>_ st tr.
         bind (emit (LogContinue ''.'') st tr) (\<lambda>_ st tr.
           wait_loop fuel env st tr)))"

definition wait_for_ip ::
  "nat \<Rightarrow> 'c env \<Rightarrow> 'c LibvirtdState \<Rightarrow> event list \<Rightarrow> unit outcome \<times> 'c LibvirtdState \<times> event list" where
  "wait_for_ip fuel env st tr =
     bind (emit (LogStart ''waiting for IP address to appear in DHCP leases...'') st tr) (\<lambda>_ st tr.
     bind (wait_loop fuel env st tr) (\<lambda>_ st tr.
       (case private_ipv4 st of
          None \<Rightarrow> (Raise TypeError, st, tr)
        | Some ip \<Rightarrow> emit (LogEnd ('' '' @ ip)) st tr)))"

definition start ::
  "nat \<Rightarrow> 'c env \<Rightarrow> 'c LibvirtdState \<Rightarrow> event list \<Rightarrow> unit outcome \<times> 'c LibvirtdState \<times> event list" where
  "start fuel env st tr =
     (if \<not> truthy (vm_id st) then (Raise AssertionError, st, tr)
      else if \<not> truthy (domain_xml st) then (Raise AssertionError, st, tr)
      else if \<not> truthy (primary_net st) then (Raise AssertionError, st, tr)
      else
        bind (is_running env st tr) (\<lambda>running st tr.
          if running then
            bind (emit (Log ''connecting...'') st tr) (\<lambda>_ st tr.
            bind (parse_ip env st tr) (\<lambda>ip st tr.
              (Return (), st \<lparr> private_ipv4 := ip \<rparr>, tr)))
          else
            bind (emit (Log ''starting...'') st tr) (\<lambda>_ st tr.
            bind (logged_exec env
                    [Some ''virsh'', Some ''-c'', Some ''qemu:///system'', Some ''start'', vm_id st]
                    [] st tr) (\<lambda>_ st tr.
              wait_for_ip fuel env st tr))))"

definition stop ::
  "'c env \<Rightarrow> 'c LibvirtdState \<Rightarrow> event list \<Rightarrow> unit outcome \<times> 'c LibvirtdState \<times> event list" where
  "stop env st tr =
     (if \<not> truthy (vm_id st) then (Raise AssertionError, st, tr)
      else
        bind (is_running env st tr) (\<lambda>running st tr.
        bind (if running then
                bind (emit (LogStart ''shutting down... '') st tr) (\<lambda>_ st tr.
                bind (logged_exec env
                        [Some ''virsh'', Some ''-c'', Some ''qemu:///system'', Some ''destroy'', vm_id st]
                        [] st tr) (\<lambda>_ st tr.
                  (Return (), st, tr)))
              else emit (Log ''not running'') st tr) (\<lambda>_ st tr.
          (Return (), st \<lparr> state := STOPPED st \<rparr>, tr))))"

text \<open>The loop of \<^verbatim>\<open>destroy\<close> over \<^verbatim>\<open>self.extra_disks.items()\<close>.\<close>

fun unlink_extra_disks ::
  "'c env \<Rightarrow> (string option \<times> extra_disk) list \<Rightarrow> 's \<Rightarrow> event list
     \<Rightarrow> unit outcome \<times> 's \<times> event list" where
  "unlink_extra_disks env [] st tr = (Return (), st, tr)"
| "unlink_extra_disks env ((disk_name, disk_state) # rest) st tr =
     bind (if imagePath disk_state \<noteq> [] then
             bind (os_path_exists env (imagePath disk_state) st tr) (\<lambda>present st tr.
               if present then file_op env (Unlink (imagePath disk_state)) st tr
               else (Return (), st, tr))
           else (Return (), st, tr)) (\<lambda>_ st tr.
       unlink_extra_disks env rest st tr)"

text \<open>
  \<^verbatim>\<open>destroy\<close> returns True in every run that does not raise; it assigns to no
  attribute itself (the only assignment on its path is that of \<open>state\<close> in \<open>stop\<close>).
\<close>

definition destroy ::
  "'c env \<Rightarrow> 'c LibvirtdState \<Rightarrow> event list \<Rightarrow> bool outcome \<times> 'c LibvirtdState \<times> event list" where
  "destroy env st tr =
     (if \<not> truthy (vm_id st) then (Return True, st, tr)
      else
        bind (emit (LogStart ''destroying... '') st tr) (\<lambda>_ st tr.
        bind (stop env st tr) (\<lambda>_ st tr.
        bind (logged_exec env
                [Some ''virsh'', Some ''-c'', Some ''qemu:///system'', Some ''undefine'', vm_id st]
                [] st tr) (\<lambda>_ st tr.
        bind (case disk_path st of
                None \<Rightarrow> (Return (), st, tr)
              | Some path \<Rightarrow>
                  if path \<noteq> [] then
                    bind (os_path_exists env path st tr) (\<lambda>present st tr.
                      if present then file_op env (Unlink path) st tr
                      else (Return (), st, tr))
                  else (Return (), st, tr)) (\<lambda>_ st tr.
        bind (unlink_extra_disks env (extra_disks st) st tr) (\<lambda>_ st tr.
          (Return True, st, tr)))))))"

subsection \<open>Provisioning\<close>

definition extra_disk_base_image_path ::
  "'c env \<Rightarrow> string option \<Rightarrow> disk_defn \<Rightarrow> 'c LibvirtdState \<Rightarrow> event list
     \<Rightarrow> string outcome \<times> 'c LibvirtdState \<times> event list" where
  "extra_disk_base_image_path env disk_name disk_defn st tr =
     bind (logged_exec env
             ([Some ''nix-build''] @ map Some (nix_path_flags (depl st)) @
              [Some ''<nixops/generate-ext4-image.nix>'',
               Some ''--arg'', Some ''size'', defn_size disk_defn,
               Some ''--argstr'', Some ''name'', disk_name,
               Some ''-o'',
               Some (tempdir (depl st) @ ''/libvirtd-image-'' @ name st @ ''-'' @ py_str disk_name)])
             [] st tr) (\<lambda>image_build st tr.
       (Return (rstrip image_build @ ''/disk.qcow2''), st, tr))"

text \<open>
  The loop of \<^verbatim>\<open>_copy_extra_disks\<close> over \<^verbatim>\<open>defn.disks.items()\<close>, with the dict
  \<open>out\<close> it fills.
\<close>

fun copy_extra_disks_loop ::
  "'c env \<Rightarrow> LibvirtdDefinition \<Rightarrow> (string option \<times> disk_defn) list
     \<Rightarrow> (string option \<times> extra_disk) list \<Rightarrow> 'c LibvirtdState \<Rightarrow> event list
     \<Rightarrow> (string option \<times> extra_disk) list outcome \<times> 'c LibvirtdState \<times> event list" where
  "copy_extra_disks_loop env defn [] out st tr = (Return out, st, tr)"
| "copy_extra_disks_loop env defn ((disk_name, disk_defn) # rest) out st tr =
     bind (extra_disk_base_image_path env disk_name disk_defn st tr) (\<lambda>base_image_path st tr.
     bind (logged_exec env
             [Some ''qemu-img'', Some ''create'', Some ''-f'', Some ''qcow2'', Some ''-b'',
              Some base_image_path,
              Some (image_dir defn @ ''/'' @ vm_id_of st @ ''-'' @ py_str disk_name @ ''.img'')]
             [] st tr) (\<lambda>_ st tr.
       copy_extra_disks_loop env defn rest
         (AList.update disk_name
            \<lparr> device = defn_device disk_defn,
              imagePath = image_dir defn @ ''/'' @ vm_id_of st @ ''-'' @ py_str disk_name @ ''.img'' \<rparr>
            out)
         st tr))"

definition copy_extra_disks ::
  "'c env \<Rightarrow> LibvirtdDefinition \<Rightarrow> 'c LibvirtdState \<Rightarrow> event list
     \<Rightarrow> (string option \<times> extra_disk) list outcome \<times> 'c LibvirtdState \<times> event list" where
  "copy_extra_disks env defn st tr = copy_extra_disks_loop env defn (disks defn) [] st tr"

definition create_key_pair ::
  "'c env \<Rightarrow> 'c LibvirtdState \<Rightarrow> event list \<Rightarrow> unit outcome \<times> 'c LibvirtdState \<times> event list" where
  "create_key_pair env st tr =
     (Return (),
      st \<lparr> client_private_key := Some (fst (create_key_pair_result env tr)),
           client_public_key := Some (snd (create_key_pair_result env tr)) \<rparr>,
      tr @ [CreateKeyPair])"

text \<open>
  Lines 113 to 142, the body of \<^verbatim>\<open>if self.vm_id is None\<close>, statement by statement.
  The base image is built first; the test of \<^verbatim>\<open>os.access\<close> follows it.
\<close>

definition provision ::
  "'c env \<Rightarrow> LibvirtdDefinition \<Rightarrow> 'c LibvirtdState \<Rightarrow> event list
     \<Rightarrow> unit outcome \<times> 'c LibvirtdState \<times> event list" where
  "provision env defn st tr =
     (case client_public_key st of
        None \<Rightarrow> (Raise TypeError, st, tr)
      | Some pubkey \<Rightarrow>
     bind (logged_exec env
             ([Some ''nix-build''] @ map Some (eval_flags (depl st)) @
              [Some ''--arg'', Some ''checkConfigurationOptions'', Some ''false'',
               Some ''-A'', Some (''nodes.'' @ name st @ ''.config.deployment.libvirtd.baseImage''),
               Some ''-o'', Some (tempdir (depl st) @ ''/libvirtd-image-'' @ name st)])
             [(''NIXOPS_LIBVIRTD_PUBKEY'', pubkey)] st tr) (\<lambda>out st tr.
     bind (os_access env (image_dir defn) st tr) (\<lambda>writable st tr.
       if \<not> writable then
         (Raise (Exception (image_dir defn @ '' is not writable by this user or it does not exist'')),
          st, tr)
       else
     bind (file_op env (CopyFile (rstrip out @ ''/disk.qcow2'') (disk_path_of defn st))
             (st \<lparr> disk_path := Some (disk_path_of defn st) \<rparr>) tr) (\<lambda>_ st tr.
     bind (logged_exec env
             [Some ''qemu-img'', Some ''rebase'', Some ''-f'', Some ''qcow2'', Some ''-b'', Some '''',
              disk_path st]
             [] st tr) (\<lambda>_ st tr.
     bind (file_op env (Chmod (py_str (disk_path st)) 432) st tr) (\<lambda>_ st tr.
     bind (copy_extra_disks env defn st tr) (\<lambda>out st tr.
     bind (make_domain_xml env defn (st \<lparr> extra_disks := out, vm_id := Some (vm_id_of st) \<rparr>) tr)
       (\<lambda>xml st tr.
     bind (file_op env (WriteFile (tempdir (depl st) @ ''/'' @ name st @ ''-domain.xml'') xml)
             (st \<lparr> domain_xml := Some xml \<rparr>) tr) (\<lambda>_ st tr.
     bind (logged_exec env
             [Some ''virsh'', Some ''-c'', Some ''qemu:///system'', Some ''define'',
              Some (tempdir (depl st) @ ''/'' @ name st @ ''-domain.xml'')]
             [] st tr) (\<lambda>_ st tr.
       (Return (), st, tr)))))))))))"

definition create ::
  "nat \<Rightarrow> 'c env \<Rightarrow> LibvirtdDefinition \<Rightarrow> 'c LibvirtdState \<Rightarrow> event list
     \<Rightarrow> bool outcome \<times> 'c LibvirtdState \<times> event list" where
  "create fuel env defn st tr =
     (case networks defn of
        [] \<Rightarrow> (Raise IndexError, st \<lparr> common := set_common_state env defn (common st) \<rparr>, tr)
      | first_net # _ \<Rightarrow>
     bind (if \<not> truthy (primary_mac st)
           then generate_primary_mac env
                  (st \<lparr> common := set_common_state env defn (common st), primary_net := first_net \<rparr>) tr
           else (Return (),
                 st \<lparr> common := set_common_state env defn (common st), primary_net := first_net \<rparr>,
                 tr)) (\<lambda>_ st tr.
     bind (if \<not> truthy (client_public_key st) then create_key_pair env st tr
           else (Return (), st, tr)) (\<lambda>_ st tr.
     bind (if vm_id st = None then provision env defn st tr
           else (Return (), st, tr)) (\<lambda>_ st tr.
     bind (start fuel env st tr) (\<lambda>_ st tr.
       (Return True, st, tr))))))"

section \<open>Parsing the definition: \<^verbatim>\<open>LibvirtdDefinition.__init__\<close>\<close>

text \<open>
  The configuration arrives as an ElementTree element. \<^verbatim>\<open>find\<close> and \<^verbatim>\<open>findall\<close>
  take a path of steps: a tag selects the children with that tag, and a predicate
  \<^verbatim>\<open>[@key='value']\<close> keeps the selected elements that carry the attribute with that
  value. \<^verbatim>\<open>find\<close> is the first match in document order, or None.
\<close>

datatype xml = Element (tag: string) (attrib: "(string \<times> string) list") (children: "xml list")

datatype step = Child string | AttrEq string string

definition element_get :: "xml \<Rightarrow> string \<Rightarrow> string option" where
  "element_get e key = map_of (attrib e) key"

fun select :: "step \<Rightarrow> xml list \<Rightarrow> xml list" where
  "select (Child t) es = concat (map (\<lambda>e. filter (\<lambda>c. tag c = t) (children e)) es)"
| "select (AttrEq key v) es = filter (\<lambda>e. element_get e key = Some v) es"

definition findall :: "xml \<Rightarrow> step list \<Rightarrow> xml list" where
  "findall e path = foldl (\<lambda>es s. select s es) [e] path"

definition find_first :: "xml \<Rightarrow> step list \<Rightarrow> xml option" where
  "find_first e path = (case findall e path of [] \<Rightarrow> None | x # _ \<Rightarrow> Some x)"

text \<open>
  \<^verbatim>\<open>x.find(path).get("value")\<close>: calling \<^verbatim>\<open>get\<close> on the None of a failed
  \<^verbatim>\<open>find\<close> raises AttributeError.
\<close>

definition find_value :: "xml \<Rightarrow> step list \<Rightarrow> error + string option" where
  "find_value e path =
     (case find_first e path of
        None \<Rightarrow> Inl AttributeError
      | Some x \<Rightarrow> Inr (element_get x ''value''))"

text \<open>
  \<^verbatim>\<open>parse_disk\<close>, lines 43 to 51. \<open>result\<close> is a dict; when the entry has a baseImage,
  line 50 assigns to the attribute \<^verbatim>\<open>result.baseImage\<close>, and a dict has no such
  attribute: the statement raises AttributeError (its right-hand side is evaluated
  first and cannot raise, as \<open>baseImageDefn\<close> is an element there).
\<close>

definition parse_disk :: "xml \<Rightarrow> error + disk_defn" where
  "parse_disk e =
     and_then (find_value e [Child ''attrs'', Child ''attr'', AttrEq ''name'' ''device'', Child ''string''])
       (\<lambda>dev.
     and_then (find_value e [Child ''attrs'', Child ''attr'', AttrEq ''name'' ''size'', Child ''int''])
       (\<lambda>sz.
       (case find_first e [Child ''attrs'', Child ''attr'', AttrEq ''name'' ''baseImage'', Child ''string''] of
          None \<Rightarrow> Inr \<lparr> defn_device = dev, defn_size = sz \<rparr>
        | Some baseImageDefn \<Rightarrow> Inl AttributeError)))"

text \<open>
  The constructor, lines 28 to 54. Line 26 calls the constructor of the base class,
  which is outside this backend; \<open>base\<close> is its outcome (None when it returns).
\<close>

definition LibvirtdDefinition_init :: "error option \<Rightarrow> xml \<Rightarrow> error + LibvirtdDefinition" where
  "LibvirtdDefinition_init base root =
     (case base of
        Some e \<Rightarrow> Inl e
      | None \<Rightarrow>
     (case find_first root [Child ''attrs'', Child ''attr'', AttrEq ''name'' ''libvirtd'', Child ''attrs''] of
        None \<Rightarrow> Inl AssertionError
      | Some x \<Rightarrow>
     and_then (find_value x [Child ''attr'', AttrEq ''name'' ''vcpu'', Child ''int'']) (\<lambda>v_vcpu.
     and_then (find_value x [Child ''attr'', AttrEq ''name'' ''memorySize'', Child ''int'']) (\<lambda>v_memory.
     and_then (find_value x [Child ''attr'', AttrEq ''name'' ''extraDevicesXML'', Child ''string''])
       (\<lambda>v_devices.
     and_then (find_value x [Child ''attr'', AttrEq ''name'' ''extraDomainXML'', Child ''string''])
       (\<lambda>v_domain.
     and_then (find_value x [Child ''attr'', AttrEq ''name'' ''headless'', Child ''bool'']) (\<lambda>v_headless.
     and_then (find_value x [Child ''attr'', AttrEq ''name'' ''imageDir'', Child ''string'']) (\<lambda>v_dir.
       (case v_dir of
          None \<Rightarrow> Inl AssertionError
        | Some dir \<Rightarrow>
            (if findall x [Child ''attr'', AttrEq ''name'' ''networks'', Child ''list'', Child ''string''] = []
             then Inl AssertionError
             else
               and_then
                 (map_raising (\<lambda>k. and_then (parse_disk k) (\<lambda>d. Inr (element_get k ''name'', d)))
                    (findall x [Child ''attr'', AttrEq ''name'' ''disks'', Child ''attrs'', Child ''attr'']))
                 (\<lambda>entries.
                   Inr \<lparr> vcpu = v_vcpu, memory_size = v_memory, extra_devices = v_devices,
                         extra_domain = v_domain, headless = (v_headless = Some ''true''),
                         image_dir = dir,
                         networks =
                           map (\<lambda>k. element_get k ''value'')
                             (findall x [Child ''attr'', AttrEq ''name'' ''networks'', Child ''list'',
                                         Child ''string'']),
                         disks = foldl (\<lambda>d (k, v). AList.update k v d) [] entries \<rparr>)))))))))))"

section \<open>Concrete inputs\<close>

text \<open>
  A deployment with one machine, an empty identity, and a host on which every command
  and file operation succeeds. The entropy is the constant \<open>0x2a\<close>.
\<close>

definition example_env :: "unit env" where
  "example_env =
     \<lparr> exec_result = (\<lambda>tr ev. Some ''''),
       check_output_result = (\<lambda>tr cmd. Some ''''),
       access_result = (\<lambda>tr path. True),
       exists_result = (\<lambda>tr path. True),
       file_op_ok = (\<lambda>tr ev. True),
       find_executable_result = (\<lambda>tr prog. Some (''/usr/bin/'' @ prog)),
       randint_raw = (\<lambda>tr. 0x2a),
       create_key_pair_result = (\<lambda>tr. (''PRIVATE'', ''PUBLIC'')),
       set_common_state = (\<lambda>defn c. c) \<rparr>"

definition example_state :: "unit LibvirtdState" where
  "example_state =
     \<lparr> depl = \<lparr> uuid = ''d1'', tempdir = ''/tmp/nixops'', eval_flags = [], nix_path_flags = [] \<rparr>,
       name = ''web'', STOPPED = 5, common = (), state = 0,
       vm_id = None, private_ipv4 = None, client_public_key = None,
       client_private_key = None, primary_net = None, primary_mac = None,
       domain_xml = None, disk_path = None, extra_disks = [] \<rparr>"

text \<open>An identity with a network and a MAC, and hosts that answer every query with a given text.\<close>

definition leased_state :: "unit LibvirtdState" where
  "leased_state =
     example_state \<lparr> primary_net := Some ''default'', primary_mac := Some ''52:54:00:2a:2a:2a'' \<rparr>"

definition lease_env :: "string \<Rightarrow> unit env" where
  "lease_env lines = example_env \<lparr> check_output_result := (\<lambda>tr cmd. Some lines) \<rparr>"

definition lease_header :: string where
  "lease_header =
     '' Expiry Time          MAC address        Protocol  IP address          Hostname  Client ID or DUID\<newline>'' @
     ''-------------------------------------------------------------------------------------------------\<newline>''"

definition lease_table :: string where
  "lease_table =
     lease_header @
     '' 2016-03-01 12:00:00  52:54:00:2a:2a:2a  ipv4      192.168.122.10/24   web       -\<newline>''"

text \<open>A disk entry of the configuration, with and without the optional baseImage.\<close>

definition disk_attr :: "string \<Rightarrow> string \<Rightarrow> string \<Rightarrow> xml" where
  "disk_attr key kind v =
     Element ''attr'' [(''name'', key)] [Element kind [(''value'', v)] []]"

definition disk_entry :: "xml list \<Rightarrow> xml" where
  "disk_entry others =
     Element ''attr'' [(''name'', ''data'')]
       [Element ''attrs'' []
          ([disk_attr ''device'' ''string'' ''vdb'', disk_attr ''size'' ''int'' ''10''] @ others)]"

text \<open>The whole configuration of a machine with one network and the given disk entries.\<close>

definition config_attr :: "string \<Rightarrow> xml list \<Rightarrow> xml" where
  "config_attr key body = Element ''attr'' [(''name'', key)] body"

definition example_config :: "xml list \<Rightarrow> xml" where
  "example_config disk_entries =
     Element ''expr'' []
       [Element ''attrs'' []
          [config_attr ''libvirtd''
             [Element ''attrs'' []
                [config_attr ''vcpu'' [Element ''int'' [(''value'', ''2'')] []],
                 config_attr ''memorySize'' [Element ''int'' [(''value'', ''1024'')] []],
                 config_attr ''extraDevicesXML'' [Element ''string'' [(''value'', '''')] []],
                 config_attr ''extraDomainXML'' [Element ''string'' [(''value'', '''')] []],
                 config_attr ''headless'' [Element ''bool'' [(''value'', ''true'')] []],
                 config_attr ''imageDir'' [Element ''string'' [(''value'', ''/var/lib/libvirt/images'')] []],
                 config_attr ''networks''
                   [Element ''list'' [] [Element ''string'' [(''value'', ''default'')] []]],
                 config_attr ''disks'' [Element ''attrs'' [] disk_entries]]]]]"

section \<open>Reading a MAC address back\<close>

text \<open>
  The octets of a MAC address in the usual notation: six groups of two lower-case
  hexadecimal digits, separated by colons. This is the reading of the text that
  \<open>generate_primary_mac\<close> writes; the backend itself never parses a MAC.
\<close>

fun split_on :: "char \<Rightarrow> string \<Rightarrow> string list" where
  "split_on c [] = [[]]"
| "split_on c (x # xs) =
     (if x = c then [] # split_on c xs
      else (case split_on c xs of [] \<Rightarrow> [[x]] | g # gs \<Rightarrow> (x # g) # gs))"

definition octet_of :: "string \<Rightarrow> nat option" where
  "octet_of g =
     (case g of
        [a, b] \<Rightarrow>
          (case (list_index ''0123456789abcdef'' a, list_index ''0123456789abcdef'' b) of
             (Some x, Some y) \<Rightarrow> Some (16 * x + y)
           | _ \<Rightarrow> None)
      | _ \<Rightarrow> None)"

definition mac_octets :: "string \<Rightarrow> nat list option" where
  "mac_octets s =
     (if length (split_on (CHR '':'') s) = 6 \<and> list_all (\<lambda>g. octet_of g \<noteq> None) (split_on (CHR '':'') s)
      then Some (map (\<lambda>g. the (octet_of g)) (split_on (CHR '':'') s))
      else None)"

text \<open>An entropy source that yields \<open>a\<close>, \<open>b\<close> and \<open>c\<close> for the three draws made from trace \<open>tr\<close> on.\<close>

definition draws :: "event list \<Rightarrow> nat \<Rightarrow> nat \<Rightarrow> nat \<Rightarrow> event list \<Rightarrow> nat" where
  "draws tr a b c t =
     (if t = tr then a else if t = tr @ [RandInt 0x00 0x7f] then b else c)"

section \<open>Runs, traces and sequences of calls\<close>

text \<open>
  \<open>steps P proj st tr m\<close>: the run with outcome \<open>m\<close>, started in state \<open>st\<close> with trace
  \<open>tr\<close>, only adds events that satisfy \<open>P\<close> to the trace and leaves the part \<open>proj\<close> of
  the state as it was, whether it returns, raises or runs out of fuel.
\<close>

definition steps ::
  "(event \<Rightarrow> bool) \<Rightarrow> ('s \<Rightarrow> 'p) \<Rightarrow> 's \<Rightarrow> event list \<Rightarrow> 'a outcome \<times> 's \<times> event list \<Rightarrow> bool" where
  "steps P proj st tr m =
     (case m of (r, st', tr') \<Rightarrow> proj st' = proj st \<and> (\<exists>evs. tr' = tr @ evs \<and> list_all P evs))"

text \<open>
  The events by the part of \<open>create\<close> that causes them: the draws of the MAC, the
  prologue (MAC and key pair), provisioning (image builds, disk files, the lookup of the
  emulator, the descriptor file, \<^verbatim>\<open>virsh define\<close>), and \<open>start\<close> (queries, the log,
  sleeping, \<^verbatim>\<open>virsh start\<close>).
\<close>

fun mac_draw :: "event \<Rightarrow> bool" where
  "mac_draw (RandInt a b) = True"
| "mac_draw _ = False"

fun prologue_event :: "event \<Rightarrow> bool" where
  "prologue_event (RandInt a b) = True"
| "prologue_event CreateKeyPair = True"
| "prologue_event _ = False"

fun provisioning_event :: "event \<Rightarrow> bool" where
  "provisioning_event (Exec cmd vars) =
     (take 1 cmd = [''nix-build''] \<or> take 1 cmd = [''qemu-img''] \<or>
      take 4 cmd = [''virsh'', ''-c'', ''qemu:///system'', ''define''])"
| "provisioning_event (Access path) = True"
| "provisioning_event (CopyFile src dst) = True"
| "provisioning_event (Chmod path mode) = True"
| "provisioning_event (WriteFile path content) = True"
| "provisioning_event (FindExecutable prog) = True"
| "provisioning_event _ = False"

fun start_event :: "event \<Rightarrow> bool" where
  "start_event (Exec cmd vars) =
     (take 4 cmd = [''virsh'', ''-c'', ''qemu:///system'', ''start''] \<and> length cmd = 5)"
| "start_event (CheckOutput cmd) = True"
| "start_event (Sleep n) = True"
| "start_event (Log s) = True"
| "start_event (LogStart s) = True"
| "start_event (LogContinue s) = True"
| "start_event (LogEnd s) = True"
| "start_event _ = False"

text \<open>
  The image build of line 116, as an event: the call of the external image builder for
  the machine of \<open>st\<close>, with the public key in its environment.
\<close>

definition image_build_event :: "'c LibvirtdState \<Rightarrow> string \<Rightarrow> event" where
  "image_build_event st pubkey =
     Exec ([''nix-build''] @ eval_flags (depl st) @
           [''--arg'', ''checkConfigurationOptions'', ''false'',
            ''-A'', ''nodes.'' @ name st @ ''.config.deployment.libvirtd.baseImage'',
            ''-o'', tempdir (depl st) @ ''/libvirtd-image-'' @ name st])
          [(''NIXOPS_LIBVIRTD_PUBKEY'', pubkey)]"

text \<open>The rest of \<open>create\<close> after the MAC has been dealt with (lines 110 to 144).\<close>

definition after_mac ::
  "nat \<Rightarrow> 'c env \<Rightarrow> LibvirtdDefinition \<Rightarrow> 'c LibvirtdState \<Rightarrow> event list
     \<Rightarrow> bool outcome \<times> 'c LibvirtdState \<times> event list" where
  "after_mac fuel env defn st tr =
     bind (if \<not> truthy (client_public_key st) then create_key_pair env st tr
           else (Return (), st, tr)) (\<lambda>_ st tr.
     bind (if vm_id st = None then provision env defn st tr
           else (Return (), st, tr)) (\<lambda>_ st tr.
     bind (start fuel env st tr) (\<lambda>_ st tr.
       (Return True, st, tr))))"

text \<open>
  A sequence of calls of \<open>create\<close>, each with its own fuel, environment and definition.
  Every call starts from the attributes and the trace the previous one left, whatever
  its outcome was: the attributes are persisted as they are written.
\<close>

fun creates ::
  "(nat \<times> 'c env \<times> LibvirtdDefinition) list \<Rightarrow> 'c LibvirtdState \<Rightarrow> event list
     \<Rightarrow> 'c LibvirtdState \<times> event list" where
  "creates [] st tr = (st, tr)"
| "creates ((fuel, env, defn) # calls) st tr =
     (case create fuel env defn st tr of (r, st', tr') \<Rightarrow> creates calls st' tr')"

section \<open>Concrete machines and hosts\<close>

text \<open>
  The definition that \<open>example_config [disk_entry []]\<close> parses to, and a host on which
  every command succeeds: the image builder prints a store path, \<^verbatim>\<open>virsh list\<close> shows
  the domain once it has been started, and the lease table holds the MAC that the
  constant entropy \<open>0x2a\<close> yields.
\<close>

definition example_defn :: LibvirtdDefinition where
  "example_defn =
     \<lparr> vcpu = Some ''2'', memory_size = Some ''1024'', extra_devices = Some '''',
       extra_domain = Some '''', headless = True, image_dir = ''/var/lib/libvirt/images'',
       networks = [Some ''default''],
       disks = [(Some ''data'', \<lparr> defn_device = Some ''vdb'', defn_size = Some ''10'' \<rparr>)] \<rparr>"

definition host_env :: "unit env" where
  "host_env =
     example_env
       \<lparr> exec_result := (\<lambda>tr ev. Some ''/nix/store/image\<newline>''),
         check_output_result :=
           (\<lambda>tr cmd.
              if cmd = [''virsh'', ''-c'', ''qemu:///system'', ''list'']
              then (if Exec [''virsh'', ''-c'', ''qemu:///system'', ''start'', ''nixops-d1-web''] [] \<in> set tr
                    then Some '' 1 nixops-d1-web running'' else Some '''')
              else Some lease_table) \<rparr>"

text \<open>Hosts on which the image build fails, and on which the image directory is not writable.\<close>

definition failing_build_env :: "unit env" where
  "failing_build_env = example_env \<lparr> exec_result := (\<lambda>tr ev. None) \<rparr>"

definition unwritable_env :: "unit env" where
  "unwritable_env = host_env \<lparr> access_result := (\<lambda>tr path. False) \<rparr>"

text \<open>An identity as a completed \<open>create\<close> leaves it: registered, with its disks.\<close>

definition defined_state :: "unit LibvirtdState" where
  "defined_state =
     example_state
       \<lparr> vm_id := Some ''nixops-d1-web'',
         client_public_key := Some ''PUBLIC'', client_private_key := Some ''PRIVATE'',
         primary_net := Some ''default'', primary_mac := Some ''52:54:00:2a:2a:2a'',
         domain_xml := Some ''<domain type=\"kvm\"></domain>'',
         disk_path := Some ''/var/lib/libvirt/images/nixops-d1-web.img'',
         extra_disks :=
           [(Some ''data'',
             \<lparr> device = Some ''vdb'',
               imagePath = ''/var/lib/libvirt/images/nixops-d1-web-data.img'' \<rparr>)] \<rparr>"

section \<open>What destroy is to delete\<close>

text \<open>
  The files of an identity, in the order \<^verbatim>\<open>destroy\<close> visits them: the primary disk,
  then the image of every extra disk. A file is handled by asking whether it exists and
  unlinking it if so; a path that is the empty string is skipped without a question, as
  in the tests \<^verbatim>\<open>self.disk_path and ...\<close> and \<^verbatim>\<open>image_path and ...\<close>.
\<close>

definition managed_paths :: "'c LibvirtdState \<Rightarrow> string list" where
  "managed_paths st =
     (case disk_path st of None \<Rightarrow> [] | Some path \<Rightarrow> [path]) @
     map (\<lambda>(disk_name, disk_state). imagePath disk_state) (extra_disks st)"

definition delete_if_present :: "'c env \<Rightarrow> event list \<Rightarrow> string \<Rightarrow> event list" where
  "delete_if_present env tr path =
     (if path = [] then tr
      else if exists_result env tr path then tr @ [PathExists path, Unlink path]
      else tr @ [PathExists path])"

text \<open>A host on which the domain is running and only the primary disk file exists.\<close>

definition running_env :: "unit env" where
  "running_env =
     example_env
       \<lparr> check_output_result := (\<lambda>tr cmd. Some '' 1 nixops-d1-web running''),
         exists_result := (\<lambda>tr path. path = ''/var/lib/libvirt/images/nixops-d1-web.img'') \<rparr>"

section \<open>Counting what a create provisions\<close>

text \<open>
  The events that mark each step of provisioning: the copy of the primary disk, the
  creation of an extra disk image, the rendering of the descriptor (it begins with the
  lookup of the emulator) and the registration of the domain. \<open>provisioned\<close> is the
  part of the identity that provisioning sets.
\<close>

fun disk_copy_event :: "event \<Rightarrow> bool" where
  "disk_copy_event (CopyFile src dst) = True"
| "disk_copy_event _ = False"

fun disk_create_event :: "event \<Rightarrow> bool" where
  "disk_create_event (Exec cmd vars) = (take 2 cmd = [''qemu-img'', ''create''])"
| "disk_create_event _ = False"

fun render_event :: "event \<Rightarrow> bool" where
  "render_event (FindExecutable prog) = True"
| "render_event _ = False"

fun registration_event :: "event \<Rightarrow> bool" where
  "registration_event (Exec cmd vars) = (take 4 cmd = [''virsh'', ''-c'', ''qemu:///system'', ''define''])"
| "registration_event _ = False"

definition provisioned :: "'c LibvirtdState \<Rightarrow> string option \<times> string option \<times> (string option \<times> extra_disk) list \<times> string option" where
  "provisioned st = (vm_id st, disk_path st, extra_disks st, domain_xml st)"

section \<open>The descriptor, written out\<close>

text \<open>
  What the descriptor is to hold, built by concatenation alone: an interface element
  for a network with or without the MAC line, the element of an extra disk, and the
  whole domain. \<open>mac_slots\<close> gives, for each network of the definition in order, the
  MAC its interface element carries, if any. \<open>brace_free\<close> texts are those that
  \<^verbatim>\<open>str.format\<close> copies unchanged.
\<close>

definition brace_free :: "string \<Rightarrow> bool" where
  "brace_free s = (CHR ''{'' \<notin> set s \<and> CHR ''}'' \<notin> set s)"

definition interface_element :: "string \<Rightarrow> string option \<Rightarrow> string" where
  "interface_element net mac =
     py_join ''\<newline>''
       [''    <interface type=\"network\">'',
        (case mac of None \<Rightarrow> '''' | Some m \<Rightarrow> ''<mac address=\"'' @ m @ ''\" />''),
        ''      <source network=\"'' @ net @ ''\"/>'',
        ''      <model type=\"virtio\"/>'',
        ''    </interface>'']"

definition mac_slots :: "'c LibvirtdState \<Rightarrow> LibvirtdDefinition \<Rightarrow> string option list" where
  "mac_slots st defn = map (\<lambda>n. if n = primary_net st then primary_mac st else None) (networks defn)"

definition interface_elements :: "'c LibvirtdState \<Rightarrow> LibvirtdDefinition \<Rightarrow> string list" where
  "interface_elements st defn =
     map (\<lambda>(n, slot). interface_element (py_str n) slot) (zip (networks defn) (mac_slots st defn))"

definition disk_element :: "extra_disk \<Rightarrow> string" where
  "disk_element disk_state =
     py_join ''\<newline>''
       [''    <disk type=\"file\" device=\"disk\">'',
        ''      <driver name=\"qemu\" type=\"qcow2\"/>'',
        ''      <source file=\"'' @ imagePath disk_state @ ''\"/>'',
        ''      <target dev=\"'' @ py_str (device disk_state) @ ''\"/>'',
        ''    </disk>'']"

definition descriptor ::
  "string \<Rightarrow> string \<Rightarrow> string \<Rightarrow> string \<Rightarrow> string \<Rightarrow> string list \<Rightarrow> string list \<Rightarrow> bool
     \<Rightarrow> string \<Rightarrow> string \<Rightarrow> string" where
  "descriptor vm memory qemu disk cpus disk_elems iface_elems no_graphics devices domain =
     py_join ''\<newline>''
       [''<domain type=\"kvm\">'',
        ''  <name>'' @ vm @ ''</name>'',
        ''  <memory unit=\"MiB\">'' @ memory @ ''</memory>'',
        ''  <vcpu>'' @ cpus @ ''</vcpu>'',
        ''  <cpu>'',
        ''    <topology sockets=\"1\" cores=\"'' @ cpus @ ''\" threads=\"1\"/>'',
        ''  </cpu>'',
        ''  <os>'',
        ''    <type arch=\"x86_64\">hvm</type>'',
        ''  </os>'',
        ''  <devices>'',
        ''    <emulator>'' @ qemu @ ''</emulator>'',
        ''    <disk type=\"file\" device=\"disk\">'',
        ''      <driver name=\"qemu\" type=\"qcow2\"/>'',
        ''      <source file=\"'' @ disk @ ''\"/>'',
        ''      <target dev=\"hda\"/>'',
        ''    </disk>'',
        py_join ''\<newline>'' disk_elems,
        py_join ''\<newline>'' iface_elems,
        (if no_graphics then '''' else ''    <graphics type=\"sdl\" display=\":0.0\"/>''),
        ''    <input type=\"keyboard\" bus=\"usb\"/>'',
        ''    <input type=\"mouse\" bus=\"usb\"/>'',
        devices,
        ''  </devices>'',
        domain,
        ''</domain>'']"

text \<open>
  Definitions with two networks, with the same network twice, and with a network whose
  name is a replacement field; and the identity and the trace that the first \<open>create\<close>
  of the example machine on the example host leaves.
\<close>

definition two_nets_defn :: LibvirtdDefinition where
  "two_nets_defn = example_defn \<lparr> networks := [Some ''default'', Some ''isolated''] \<rparr>"

definition same_net_twice_defn :: LibvirtdDefinition where
  "same_net_twice_defn = example_defn \<lparr> networks := [Some ''default'', Some ''default''] \<rparr>"

definition brace_net_defn :: LibvirtdDefinition where
  "brace_net_defn = example_defn \<lparr> networks := [Some ''{0}''] \<rparr>"

definition example_descriptor :: string where
  "example_descriptor =
     descriptor ''nixops-d1-web'' ''1024'' ''/usr/bin/qemu-system-x86_64''
       ''/var/lib/libvirt/images/nixops-d1-web.img'' ''2''
       [disk_element \<lparr> device = Some ''vdb'',
                       imagePath = ''/var/lib/libvirt/images/nixops-d1-web-data.img'' \<rparr>]
       [interface_element ''default'' (Some ''52:54:00:2a:2a:2a'')] True '''' ''''"

definition created_state :: "unit LibvirtdState" where
  "created_state =
     defined_state \<lparr> domain_xml := Some example_descriptor,
                     private_ipv4 := Some ''192.168.122.10'' \<rparr>"

definition created_trace :: "event list" where
  "created_trace =
     [RandInt 0x00 0x7f, RandInt 0x00 0xff, RandInt 0x00 0xff, CreateKeyPair,
      image_build_event example_state ''PUBLIC'',
      Access ''/var/lib/libvirt/images'',
      CopyFile ''/nix/store/image/disk.qcow2'' ''/var/lib/libvirt/images/nixops-d1-web.img'',
      Exec [''qemu-img'', ''rebase'', ''-f'', ''qcow2'', ''-b'', '''',
            ''/var/lib/libvirt/images/nixops-d1-web.img''] [],
      Chmod ''/var/lib/libvirt/images/nixops-d1-web.img'' 432,
      Exec [''nix-build'', ''<nixops/generate-ext4-image.nix>'', ''--arg'', ''size'', ''10'',
            ''--argstr'', ''name'', ''data'', ''-o'', ''/tmp/nixops/libvirtd-image-web-data''] [],
      Exec [''qemu-img'', ''create'', ''-f'', ''qcow2'', ''-b'', ''/nix/store/image/disk.qcow2'',
            ''/var/lib/libvirt/images/nixops-d1-web-data.img''] [],
      FindExecutable ''qemu-system-x86_64'',
      WriteFile ''/tmp/nixops/web-domain.xml'' example_descriptor,
      Exec [''virsh'', ''-c'', ''qemu:///system'', ''define'', ''/tmp/nixops/web-domain.xml''] [],
      CheckOutput [''virsh'', ''-c'', ''qemu:///system'', ''list''],
      Log ''starting...'',
      Exec [''virsh'', ''-c'', ''qemu:///system'', ''start'', ''nixops-d1-web''] [],
      LogStart ''waiting for IP address to appear in DHCP leases...'',
      CheckOutput [''virsh'', ''-c'', ''qemu:///system'', ''net-dhcp-leases'', ''--network'', ''default''],
      LogEnd '' 192.168.122.10'']"

section \<open>Properties\<close>

subsection \<open>Sequencing\<close>

lemma bind_Return [simp]: "bind (Return a, st, tr) f = f a st tr"
  by (simp add: bind_def)

lemma bind_Raise [simp]: "bind (Raise e, st, tr) f = (Raise e, st, tr)"
  by (simp add: bind_def)

lemma bind_OutOfFuel [simp]: "bind (OutOfFuel, st, tr) f = (OutOfFuel, st, tr)"
  by (simp add: bind_def)

lemma and_then_Inr [simp]: "and_then (Inr a) f = f a"
  by (simp add: and_then_def)

lemma and_then_Inl [simp]: "and_then (Inl e) f = Inl e"
  by (simp add: and_then_def)

lemma lift_Inr [simp]: "lift (Inr a) st tr = (Return a, st, tr)"
  by (simp add: lift_def)

lemma lift_Inl [simp]: "lift (Inl e) st tr = (Raise e, st, tr)"
  by (simp add: lift_def)

subsection \<open>Lease lookup\<close>

lemma list_index_None: "list_index xs x = None \<longleftrightarrow> x \<notin> set xs"
  by (induction xs) auto

lemma list_index_Some:
  "list_index xs x = Some i \<longleftrightarrow> i < length xs \<and> xs ! i = x \<and> (\<forall>j<i. xs ! j \<noteq> x)"
proof (induction xs arbitrary: i)
  case Nil
  then show ?case by simp
next
  case (Cons y ys)
  show ?case
  proof (cases "y = x")
    case True
    then show ?thesis by (cases i) auto
  next
    case False
    show ?thesis
    proof (cases i)
      case 0
      with False show ?thesis by auto
    next
      case (Suc k)
      have "(\<forall>j<Suc k. (y # ys) ! j \<noteq> x) \<longleftrightarrow> (\<forall>j<k. ys ! j \<noteq> x)"
        using False by (auto simp: less_Suc_eq_0_disj)
      with False Suc Cons.IH [of k] show ?thesis by auto
    qed
  qed
qed

lemma split_first_no_sep: "c \<notin> set (split_first c s)"
  unfolding split_first_def by (induction s) auto

lemma split_first_prefix: "s = split_first c s \<or> (\<exists>rest. s = split_first c s @ c # rest)"
  unfolding split_first_def by (induction s) auto

lemma parse_ip_eq:
  assumes "primary_net st = Some net"
    and "check_output_result env tr
           [''virsh'', ''-c'', ''qemu:///system'', ''net-dhcp-leases'', ''--network'', net] = Some lines"
  shows "parse_ip env st tr =
     lift (find_lease lines (primary_mac st)) st
       (tr @ [CheckOutput [''virsh'', ''-c'', ''qemu:///system'', ''net-dhcp-leases'', ''--network'', net]])"
  using assms by (simp add: parse_ip_def check_output_def)

lemma py_split_lease_header:
  "py_split lease_header =
     [''Expiry'', ''Time'', ''MAC'', ''address'', ''Protocol'', ''IP'', ''address'', ''Hostname'',
      ''Client'', ''ID'', ''or'', ''DUID'',
      ''-------------------------------------------------------------------------------------------------'']"
  by (simp add: py_split_def lease_header_def is_space_def)

lemma py_split_lease_table:
  "py_split lease_table =
     [''Expiry'', ''Time'', ''MAC'', ''address'', ''Protocol'', ''IP'', ''address'', ''Hostname'',
      ''Client'', ''ID'', ''or'', ''DUID'',
      ''-------------------------------------------------------------------------------------------------'',
      ''2016-03-01'', ''12:00:00'', ''52:54:00:2a:2a:2a'', ''ipv4'', ''192.168.122.10/24'', ''web'', ''-'']"
  by (simp add: py_split_def lease_table_def lease_header_def is_space_def)

text \<open>
  C9 (amended). Given the lease table the hypervisor printed, \<open>_parse_ip\<close> returns None
  when no whitespace token equals the MAC, and, when the first token equal to the MAC
  is followed by at least two further tokens, the token two places after it, cut at the
  first slash. In both cases nothing is raised and no attribute changes.
\<close>

theorem parse_ip_resolves:
  assumes net: "primary_net st = Some net"
    and mac: "primary_mac st = Some mac"
    and out: "check_output_result env tr
                [''virsh'', ''-c'', ''qemu:///system'', ''net-dhcp-leases'', ''--network'', net] = Some lines"
    and toks: "toks = py_split lines"
    and tr': "tr' = tr @ [CheckOutput [''virsh'', ''-c'', ''qemu:///system'', ''net-dhcp-leases'', ''--network'', net]]"
  shows "(mac \<notin> set toks \<longrightarrow> parse_ip env st tr = (Return None, st, tr')) \<and>
         (\<forall>i. i + 2 < length toks \<and> toks ! i = mac \<and> (\<forall>j<i. toks ! j \<noteq> mac) \<longrightarrow>
            (\<exists>ip. parse_ip env st tr = (Return (Some ip), st, tr') \<and>
                  CHR ''/'' \<notin> set ip \<and>
                  (toks ! (i + 2) = ip \<or> (\<exists>rest. toks ! (i + 2) = ip @ CHR ''/'' # rest))))"
proof (intro conjI impI allI)
  assume "mac \<notin> set toks"
  then have "list_index (py_split lines) mac = None"
    by (simp add: list_index_None toks)
  then show "parse_ip env st tr = (Return None, st, tr')"
    by (simp add: parse_ip_eq [OF net out] find_lease_def mac tr')
next
  fix i
  assume i: "i + 2 < length toks \<and> toks ! i = mac \<and> (\<forall>j<i. toks ! j \<noteq> mac)"
  then have "list_index (py_split lines) mac = Some i"
    by (simp add: list_index_Some toks)
  with i have "parse_ip env st tr =
      (Return (Some (split_first CHR ''/'' (toks ! (i + 2)))), st, tr')"
    by (simp add: parse_ip_eq [OF net out] find_lease_def mac tr' toks)
  then show "\<exists>ip. parse_ip env st tr = (Return (Some ip), st, tr') \<and>
                  CHR ''/'' \<notin> set ip \<and>
                  (toks ! (i + 2) = ip \<or> (\<exists>rest. toks ! (i + 2) = ip @ CHR ''/'' # rest))"
    using split_first_no_sep [of "CHR ''/''" "toks ! (i + 2)"]
      split_first_prefix [of "toks ! (i + 2)" "CHR ''/''"]
    by auto
qed

theorem parse_ip_resolves_witness:
  "parse_ip (lease_env lease_header) leased_state [] =
     (Return None, leased_state,
      [CheckOutput [''virsh'', ''-c'', ''qemu:///system'', ''net-dhcp-leases'', ''--network'', ''default'']]) \<and>
   py_split lease_table ! 15 = ''52:54:00:2a:2a:2a'' \<and>
   py_split lease_table ! 17 = ''192.168.122.10/24'' \<and>
   (\<exists>ip. parse_ip (lease_env lease_table) leased_state [] =
     (Return (Some ip), leased_state,
      [CheckOutput [''virsh'', ''-c'', ''qemu:///system'', ''net-dhcp-leases'', ''--network'', ''default'']]) \<and>
     CHR ''/'' \<notin> set ip \<and>
     (py_split lease_table ! 17 = ip \<or> (\<exists>rest. py_split lease_table ! 17 = ip @ CHR ''/'' # rest)))"
proof -
  have first: "\<forall>j<15. py_split lease_table ! j \<noteq> ''52:54:00:2a:2a:2a''"
    unfolding py_split_lease_table by (simp add: nth_Cons' All_less_Suc2)
  have absent: "''52:54:00:2a:2a:2a'' \<notin> set (py_split lease_header)"
    unfolding py_split_lease_header by simp
  note A = parse_ip_resolves [of leased_state "''default''" "''52:54:00:2a:2a:2a''"
      "lease_env lease_header" "[]" lease_header "py_split lease_header", THEN conjunct1]
  note B = parse_ip_resolves [of leased_state "''default''" "''52:54:00:2a:2a:2a''"
      "lease_env lease_table" "[]" lease_table "py_split lease_table", THEN conjunct2, THEN spec, of _ 15]
  show ?thesis
    using A B first absent
    by (simp add: leased_state_def lease_env_def py_split_lease_table)
qed

text \<open>
  C9 as stated fails: in a table that ends after the protocol column the MAC is found,
  one token follows it, and the lookup raises IndexError instead of returning.
\<close>

theorem parse_ip_resolves_counterexample:
  "list_index (py_split '' 2016-03-01 12:00:00  52:54:00:2a:2a:2a  ipv4'') ''52:54:00:2a:2a:2a'' = Some 2 \<and>
   length (py_split '' 2016-03-01 12:00:00  52:54:00:2a:2a:2a  ipv4'') = 4 \<and>
   parse_ip (lease_env '' 2016-03-01 12:00:00  52:54:00:2a:2a:2a  ipv4'') leased_state [] =
     (Raise IndexError, leased_state,
      [CheckOutput [''virsh'', ''-c'', ''qemu:///system'', ''net-dhcp-leases'', ''--network'', ''default'']])"
  by (simp add: parse_ip_def check_output_def find_lease_def py_split_def is_space_def
      leased_state_def lease_env_def example_env_def example_state_def)

text \<open>
  C10 (amended). Given the lease table the hypervisor printed, \<open>_parse_ip\<close> raises
  IndexError exactly when the first token equal to the MAC is the last token or the one
  before it; the position that counts is the one \<open>index\<close> matches, the first.
\<close>

theorem parse_ip_index_error:
  assumes net: "primary_net st = Some net"
    and mac: "primary_mac st = Some mac"
    and out: "check_output_result env tr
                [''virsh'', ''-c'', ''qemu:///system'', ''net-dhcp-leases'', ''--network'', net] = Some lines"
    and toks: "toks = py_split lines"
    and tr': "tr' = tr @ [CheckOutput [''virsh'', ''-c'', ''qemu:///system'', ''net-dhcp-leases'', ''--network'', net]]"
  shows "(parse_ip env st tr = (Raise IndexError, st, tr')) =
           (\<exists>i<length toks. toks ! i = mac \<and> (\<forall>j<i. toks ! j \<noteq> mac) \<and> length toks \<le> i + 2)"
proof (cases "list_index toks mac")
  case None
  then have "mac \<notin> set toks" by (simp add: list_index_None)
  then have "\<not> (\<exists>i<length toks. toks ! i = mac \<and> (\<forall>j<i. toks ! j \<noteq> mac) \<and> length toks \<le> i + 2)"
    by auto
  moreover have "parse_ip env st tr = (Return None, st, tr')"
    using None by (simp add: parse_ip_eq [OF net out] find_lease_def mac tr' toks)
  ultimately show ?thesis by simp
next
  case (Some k)
  then have k: "k < length toks \<and> toks ! k = mac \<and> (\<forall>j<k. toks ! j \<noteq> mac)"
    by (simp add: list_index_Some)
  have uniq: "i = k" if "i < length toks \<and> toks ! i = mac \<and> (\<forall>j<i. toks ! j \<noteq> mac)" for i
    using that Some by (simp add: list_index_Some [symmetric])
  have "(parse_ip env st tr = (Raise IndexError, st, tr')) = (length toks \<le> k + 2)"
    using Some by (simp add: parse_ip_eq [OF net out] find_lease_def mac tr' toks)
  also have "\<dots> = (\<exists>i<length toks. toks ! i = mac \<and> (\<forall>j<i. toks ! j \<noteq> mac) \<and> length toks \<le> i + 2)"
    using k uniq by blast
  finally show ?thesis .
qed

theorem parse_ip_index_error_witness:
  "py_split ''web 52:54:00:2a:2a:2a'' = [''web'', ''52:54:00:2a:2a:2a''] \<and>
   parse_ip (lease_env ''web 52:54:00:2a:2a:2a'') leased_state [] =
     (Raise IndexError, leased_state,
      [CheckOutput [''virsh'', ''-c'', ''qemu:///system'', ''net-dhcp-leases'', ''--network'', ''default'']])"
proof -
  have t: "py_split ''web 52:54:00:2a:2a:2a'' = [''web'', ''52:54:00:2a:2a:2a'']"
    by (simp add: py_split_def is_space_def)
  have "\<exists>i<length (py_split ''web 52:54:00:2a:2a:2a'').
          py_split ''web 52:54:00:2a:2a:2a'' ! i = ''52:54:00:2a:2a:2a'' \<and>
          (\<forall>j<i. py_split ''web 52:54:00:2a:2a:2a'' ! j \<noteq> ''52:54:00:2a:2a:2a'') \<and>
          length (py_split ''web 52:54:00:2a:2a:2a'') \<le> i + 2"
    unfolding t by (rule exI [of _ 1]) simp
  then show ?thesis
    using parse_ip_index_error [of leased_state "''default''" "''52:54:00:2a:2a:2a''"
        "lease_env ''web 52:54:00:2a:2a:2a''" "[]" "''web 52:54:00:2a:2a:2a''"
        "py_split ''web 52:54:00:2a:2a:2a''"] t
    by (simp add: leased_state_def lease_env_def)
qed

text \<open>
  C10 as stated fails: the MAC equals the last token, but its first occurrence has
  three tokens after it, so the lookup is in range and an address is returned.
\<close>

theorem parse_ip_index_error_counterexample:
  "last (py_split ''52:54:00:2a:2a:2a ipv4 192.168.122.10/24 52:54:00:2a:2a:2a'') = ''52:54:00:2a:2a:2a'' \<and>
   parse_ip (lease_env ''52:54:00:2a:2a:2a ipv4 192.168.122.10/24 52:54:00:2a:2a:2a'') leased_state [] =
     (Return (Some ''192.168.122.10''), leased_state,
      [CheckOutput [''virsh'', ''-c'', ''qemu:///system'', ''net-dhcp-leases'', ''--network'', ''default'']])"
  by (simp add: parse_ip_def check_output_def find_lease_def py_split_def is_space_def
      split_first_def leased_state_def lease_env_def example_env_def example_state_def)

subsection \<open>The generated MAC\<close>

lemma hex_digit_value:
  "k < 16 \<Longrightarrow> list_index ''0123456789abcdef'' (''0123456789abcdef'' ! k) = Some k"
proof -
  assume "k < 16"
  then have "k = 0 \<or> k = 1 \<or> k = 2 \<or> k = 3 \<or> k = 4 \<or> k = 5 \<or> k = 6 \<or> k = 7 \<or>
             k = 8 \<or> k = 9 \<or> k = 10 \<or> k = 11 \<or> k = 12 \<or> k = 13 \<or> k = 14 \<or> k = 15"
    by arith
  then show ?thesis by auto
qed

lemma hex_digit_not_colon: "k < 16 \<Longrightarrow> ''0123456789abcdef'' ! k \<noteq> CHR '':''"
proof -
  assume "k < 16"
  then have "k = 0 \<or> k = 1 \<or> k = 2 \<or> k = 3 \<or> k = 4 \<or> k = 5 \<or> k = 6 \<or> k = 7 \<or>
             k = 8 \<or> k = 9 \<or> k = 10 \<or> k = 11 \<or> k = 12 \<or> k = 13 \<or> k = 14 \<or> k = 15"
    by arith
  then show ?thesis by auto
qed

lemma fmt_02x_octet:
  assumes "n < 256"
  shows "fmt_02x n = [''0123456789abcdef'' ! (n div 16), ''0123456789abcdef'' ! (n mod 16)]"
proof (cases "n < 16")
  case True
  then show ?thesis by (simp add: fmt_02x_def)
next
  case False
  with assms have "n div 16 < 16" by simp
  with False show ?thesis
    by (simp add: fmt_02x_def hex_digits.simps [of n] hex_digits.simps [of "n div 16"])
qed

lemma octet_of_fmt_02x: "n < 256 \<Longrightarrow> octet_of (fmt_02x n) = Some n"
proof -
  assume n: "n < 256"
  then have "n div 16 < 16" "n mod 16 < 16" by simp_all
  then show ?thesis
    using n by (simp add: fmt_02x_octet octet_of_def hex_digit_value del: list_index.simps)
qed

lemma fmt_02x_no_colon: "n < 256 \<Longrightarrow> CHR '':'' \<notin> set (fmt_02x n)"
proof -
  assume n: "n < 256"
  then have "n div 16 < 16" "n mod 16 < 16" by simp_all
  then show ?thesis
    using n hex_digit_not_colon [of "n div 16"] hex_digit_not_colon [of "n mod 16"]
    by (simp add: fmt_02x_octet del: nth_Cons_numeral)
qed

lemma split_on_no_sep: "c \<notin> set a \<Longrightarrow> split_on c a = [a]"
  by (induction a) auto

lemma split_on_append: "c \<notin> set a \<Longrightarrow> split_on c (a @ c # rest) = a # split_on c rest"
  by (induction a) auto

lemma mac_octets_join:
  assumes "list_all (\<lambda>n. n < 256) [a, b, c, d, e, f]"
  shows "mac_octets (py_join '':'' (map fmt_02x [a, b, c, d, e, f])) = Some [a, b, c, d, e, f]"
proof -
  have "split_on (CHR '':'') (py_join '':'' (map fmt_02x [a, b, c, d, e, f])) =
          map fmt_02x [a, b, c, d, e, f]"
    using assms by (simp add: split_on_append split_on_no_sep fmt_02x_no_colon)
  then show ?thesis
    using assms by (simp add: mac_octets_def octet_of_fmt_02x)
qed

lemma generate_primary_mac_eq:
  "generate_primary_mac env st tr =
     (Return (),
      st \<lparr> primary_mac := Some (py_join '':'' (map fmt_02x
             [0x52, 0x54, 0x00,
              randint_raw env tr mod 128,
              randint_raw env (tr @ [RandInt 0x00 0x7f]) mod 256,
              randint_raw env (tr @ [RandInt 0x00 0x7f, RandInt 0x00 0xff]) mod 256])) \<rparr>,
      tr @ [RandInt 0x00 0x7f, RandInt 0x00 0xff, RandInt 0x00 0xff])"
  by (simp add: generate_primary_mac_def randint_def)

lemma generate_primary_mac_fourth_octet:
  "\<exists>mac o4 o5 o6.
     generate_primary_mac env st tr =
       (Return (), st \<lparr> primary_mac := Some mac \<rparr>,
        tr @ [RandInt 0x00 0x7f, RandInt 0x00 0xff, RandInt 0x00 0xff]) \<and>
     mac_octets mac = Some [0x52, 0x54, 0x00, o4, o5, o6] \<and> o4 \<le> 0x7f"
proof -
  let ?o4 = "randint_raw env tr mod 128"
  let ?o5 = "randint_raw env (tr @ [RandInt 0x00 0x7f]) mod 256"
  let ?o6 = "randint_raw env (tr @ [RandInt 0x00 0x7f, RandInt 0x00 0xff]) mod 256"
  have small: "?o4 < 128" "?o5 < 256" "?o6 < 256" by simp_all
  then have "mac_octets (py_join '':'' (map fmt_02x [0x52, 0x54, 0x00, ?o4, ?o5, ?o6])) =
      Some [0x52, 0x54, 0x00, ?o4, ?o5, ?o6]"
    by (intro mac_octets_join) simp
  moreover have "?o4 \<le> 0x7f"
    using small by linarith
  ultimately show ?thesis
    using generate_primary_mac_eq [of env st tr] by blast
qed

text \<open>
  C4 (amended). \<open>_generate_primary_mac\<close> makes three draws and stores a MAC whose
  octets are 52:54:00 followed by the three values drawn: the fourth octet lies in
  0x00..0x7f, the fifth and the sixth in 0x00..0xff, and every such triple is the
  outcome for some entropy. (That the draws are uniform is a property of
  \<open>random.randint\<close>, not of this code.)
\<close>

theorem generate_primary_mac_octets:
  "(\<exists>mac o4 o5 o6.
      generate_primary_mac env st tr =
        (Return (), st \<lparr> primary_mac := Some mac \<rparr>,
         tr @ [RandInt 0x00 0x7f, RandInt 0x00 0xff, RandInt 0x00 0xff]) \<and>
      mac_octets mac = Some [0x52, 0x54, 0x00, o4, o5, o6] \<and>
      o4 = randint_raw env tr mod 128 \<and> o4 \<le> 0x7f \<and>
      o5 = randint_raw env (tr @ [RandInt 0x00 0x7f]) mod 256 \<and> o5 \<le> 0xff \<and>
      o6 = randint_raw env (tr @ [RandInt 0x00 0x7f, RandInt 0x00 0xff]) mod 256 \<and> o6 \<le> 0xff) \<and>
   (a \<le> 0x7f \<and> b \<le> 0xff \<and> c \<le> 0xff \<longrightarrow>
      (\<exists>mac. generate_primary_mac (env \<lparr> randint_raw := draws tr a b c \<rparr>) st tr =
               (Return (), st \<lparr> primary_mac := Some mac \<rparr>,
                tr @ [RandInt 0x00 0x7f, RandInt 0x00 0xff, RandInt 0x00 0xff]) \<and>
             mac_octets mac = Some [0x52, 0x54, 0x00, a, b, c]))"
proof (intro conjI impI)
  let ?o4 = "randint_raw env tr mod 128"
  let ?o5 = "randint_raw env (tr @ [RandInt 0x00 0x7f]) mod 256"
  let ?o6 = "randint_raw env (tr @ [RandInt 0x00 0x7f, RandInt 0x00 0xff]) mod 256"
  have small: "?o4 < 128" "?o5 < 256" "?o6 < 256" by simp_all
  then have "mac_octets (py_join '':'' (map fmt_02x [0x52, 0x54, 0x00, ?o4, ?o5, ?o6])) =
      Some [0x52, 0x54, 0x00, ?o4, ?o5, ?o6]"
    by (intro mac_octets_join) simp
  moreover have "?o4 \<le> 0x7f" "?o5 \<le> 0xff" "?o6 \<le> 0xff"
    using small by linarith+
  ultimately show "\<exists>mac o4 o5 o6.
      generate_primary_mac env st tr =
        (Return (), st \<lparr> primary_mac := Some mac \<rparr>,
         tr @ [RandInt 0x00 0x7f, RandInt 0x00 0xff, RandInt 0x00 0xff]) \<and>
      mac_octets mac = Some [0x52, 0x54, 0x00, o4, o5, o6] \<and>
      o4 = randint_raw env tr mod 128 \<and> o4 \<le> 0x7f \<and>
      o5 = randint_raw env (tr @ [RandInt 0x00 0x7f]) mod 256 \<and> o5 \<le> 0xff \<and>
      o6 = randint_raw env (tr @ [RandInt 0x00 0x7f, RandInt 0x00 0xff]) mod 256 \<and> o6 \<le> 0xff"
    using generate_primary_mac_eq [of env st tr] by blast
next
  assume r: "a \<le> 0x7f \<and> b \<le> 0xff \<and> c \<le> 0xff"
  then have "mac_octets (py_join '':'' (map fmt_02x [0x52, 0x54, 0x00, a, b, c])) =
      Some [0x52, 0x54, 0x00, a, b, c]"
    by (intro mac_octets_join) simp
  moreover have "generate_primary_mac (env \<lparr> randint_raw := draws tr a b c \<rparr>) st tr =
      (Return (), st \<lparr> primary_mac := Some (py_join '':'' (map fmt_02x [0x52, 0x54, 0x00, a, b, c])) \<rparr>,
       tr @ [RandInt 0x00 0x7f, RandInt 0x00 0xff, RandInt 0x00 0xff])"
    using r by (simp add: generate_primary_mac_eq draws_def)
  ultimately show "\<exists>mac. generate_primary_mac (env \<lparr> randint_raw := draws tr a b c \<rparr>) st tr =
               (Return (), st \<lparr> primary_mac := Some mac \<rparr>,
                tr @ [RandInt 0x00 0x7f, RandInt 0x00 0xff, RandInt 0x00 0xff]) \<and>
             mac_octets mac = Some [0x52, 0x54, 0x00, a, b, c]"
    by blast
qed

theorem generate_primary_mac_octets_witness:
  "(0x7f::nat) \<le> 0x7f \<and> (0x00::nat) \<le> 0xff \<and> (0xff::nat) \<le> 0xff \<and>
   (\<exists>mac. generate_primary_mac (example_env \<lparr> randint_raw := draws [] 0x7f 0x00 0xff \<rparr>) example_state [] =
            (Return (), example_state \<lparr> primary_mac := Some mac \<rparr>,
             [RandInt 0x00 0x7f, RandInt 0x00 0xff, RandInt 0x00 0xff]) \<and>
          mac_octets mac = Some [0x52, 0x54, 0x00, 0x7f, 0x00, 0xff])"
  using generate_primary_mac_octets [of example_env example_state "[]" "0x7f" "0x00" "0xff", THEN conjunct2]
  by simp

text \<open>
  C4 as stated fails: the fourth octet never exceeds 0x7f. With entropy 0xff at every
  draw the MAC is 52:54:00:7f:ff:ff, and no run stores a MAC whose fourth octet is 0x80.
\<close>

theorem generate_primary_mac_octets_counterexample:
  "generate_primary_mac (example_env \<lparr> randint_raw := (\<lambda>tr. 0xff) \<rparr>) example_state [] =
     (Return (), example_state \<lparr> primary_mac := Some ''52:54:00:7f:ff:ff'' \<rparr>,
      [RandInt 0x00 0x7f, RandInt 0x00 0xff, RandInt 0x00 0xff]) \<and>
   \<not> (\<exists>(env :: unit env) st tr st' tr' mac o5 o6.
        generate_primary_mac env st tr = (Return (), st', tr') \<and>
        primary_mac st' = Some mac \<and>
        mac_octets mac = Some [0x52, 0x54, 0x00, 0x80, o5, o6])"
proof
  show "generate_primary_mac (example_env \<lparr> randint_raw := (\<lambda>tr. 0xff) \<rparr>) example_state [] =
     (Return (), example_state \<lparr> primary_mac := Some ''52:54:00:7f:ff:ff'' \<rparr>,
      [RandInt 0x00 0x7f, RandInt 0x00 0xff, RandInt 0x00 0xff])"
    by (simp add: generate_primary_mac_eq fmt_02x_def)
next
  show "\<not> (\<exists>(env :: unit env) st tr st' tr' mac o5 o6.
        generate_primary_mac env st tr = (Return (), st', tr') \<and>
        primary_mac st' = Some mac \<and>
        mac_octets mac = Some [0x52, 0x54, 0x00, 0x80, o5, o6])"
  proof
    assume "\<exists>(env :: unit env) st tr st' tr' mac o5 o6.
        generate_primary_mac env st tr = (Return (), st', tr') \<and>
        primary_mac st' = Some mac \<and>
        mac_octets mac = Some [0x52, 0x54, 0x00, 0x80, o5, o6]"
    then obtain env :: "unit env" and st tr st' tr' mac o5 o6 where
      run: "generate_primary_mac env st tr = (Return (), st', tr')"
      and mac: "primary_mac st' = Some mac"
      and oct: "mac_octets mac = Some [0x52, 0x54, 0x00, 0x80, o5, o6]"
      by blast
    from generate_primary_mac_fourth_octet [of env st tr]
    obtain mac' o4 where
      run': "generate_primary_mac env st tr =
        (Return (), st \<lparr> primary_mac := Some mac' \<rparr>,
         tr @ [RandInt 0x00 0x7f, RandInt 0x00 0xff, RandInt 0x00 0xff])"
      and oct': "\<exists>p q. mac_octets mac' = Some [0x52, 0x54, 0x00, o4, p, q]"
      and small: "o4 \<le> 0x7f"
      by blast
    from run run' mac have "mac' = mac" by auto
    with oct oct' have "o4 = 0x80" by auto
    with small show False by simp
  qed
qed

subsection \<open>Disk entries with a base image\<close>

text \<open>
  C6. A disk entry with device and size parses; the same entry with the optional
  baseImage makes \<open>parse_disk\<close>, and with it the constructor, raise AttributeError.
\<close>

theorem parse_disk_baseImage_raises:
  "parse_disk (disk_entry []) = Inr \<lparr> defn_device = Some ''vdb'', defn_size = Some ''10'' \<rparr> \<and>
   parse_disk (disk_entry [disk_attr ''baseImage'' ''string'' ''/nix/store/base.qcow2'']) =
     Inl AttributeError \<and>
   LibvirtdDefinition_init None (example_config [disk_entry []]) =
     Inr \<lparr> vcpu = Some ''2'', memory_size = Some ''1024'', extra_devices = Some '''',
           extra_domain = Some '''', headless = True, image_dir = ''/var/lib/libvirt/images'',
           networks = [Some ''default''],
           disks = [(Some ''data'', \<lparr> defn_device = Some ''vdb'', defn_size = Some ''10'' \<rparr>)] \<rparr> \<and>
   LibvirtdDefinition_init None
     (example_config [disk_entry [disk_attr ''baseImage'' ''string'' ''/nix/store/base.qcow2'']]) =
     Inl AttributeError"
  by (simp add: parse_disk_def LibvirtdDefinition_init_def find_value_def find_first_def
      findall_def element_get_def disk_entry_def disk_attr_def example_config_def config_attr_def)

subsection \<open>Traces of the lifecycle operations\<close>

lemma stepsI: "proj st' = proj st \<Longrightarrow> list_all P evs \<Longrightarrow> steps P proj st tr (r, st', tr @ evs)"
  by (auto simp: steps_def)

lemma steps_same [simp]: "steps P proj st tr (r, st, tr)"
  by (simp add: steps_def)

lemma steps_one: "P ev \<Longrightarrow> steps P proj st tr (r, st, tr @ [ev])"
  by (simp add: steps_def)

lemma steps_update: "proj s' = proj s \<Longrightarrow> steps P proj s' tr m \<Longrightarrow> steps P proj s tr m"
  by (auto simp: steps_def)

lemma steps_bind:
  assumes "steps P proj st tr m"
    and "\<And>a st1 tr1. m = (Return a, st1, tr1) \<Longrightarrow> steps P proj st1 tr1 (f a st1 tr1)"
  shows "steps P proj st tr (bind m f)"
proof -
  obtain r st1 tr1 where m: "m = (r, st1, tr1)" by (cases m)
  show ?thesis
  proof (cases r)
    case (Return a)
    with m assms(2) have "steps P proj st1 tr1 (f a st1 tr1)" by simp
    moreover from assms(1) m have "proj st1 = proj st" "\<exists>evs. tr1 = tr @ evs \<and> list_all P evs"
      by (auto simp: steps_def)
    ultimately show ?thesis using m Return
      by (auto simp: steps_def bind_def split: prod.splits)
  next
    case (Raise e)
    with m assms(1) show ?thesis by (simp add: bind_def steps_def)
  next
    case OutOfFuel
    with m assms(1) show ?thesis by (simp add: bind_def steps_def)
  qed
qed

lemma steps_weaken: "steps P proj st tr m \<Longrightarrow> (\<And>e. P e \<Longrightarrow> Q e) \<Longrightarrow> steps Q proj st tr m"
  by (auto simp: steps_def list_all_iff split: prod.splits)

lemma steps_logged_exec:
  "P (Exec (map the cmd) vars) \<Longrightarrow> steps P proj st tr (logged_exec env cmd vars st tr)"
  by (simp add: logged_exec_def steps_one split: option.splits)

lemma steps_check_output:
  "P (CheckOutput (map the cmd)) \<Longrightarrow> steps P proj st tr (check_output env cmd st tr)"
  by (simp add: check_output_def steps_one split: option.splits)

lemma steps_emit: "P ev \<Longrightarrow> steps P proj st tr (emit ev st tr)"
  by (simp add: emit_def steps_one)

lemma steps_file_op: "P ev \<Longrightarrow> steps P proj st tr (file_op env ev st tr)"
  by (simp add: file_op_def steps_one)

lemma steps_lift [simp]: "steps P proj st tr (lift m st tr)"
  by (simp add: lift_def split: sum.splits)

lemma steps_parse_ip:
  assumes "\<And>e. start_event e \<Longrightarrow> P e"
  shows "steps P proj st tr (parse_ip env st tr)"
  unfolding parse_ip_def
  by (intro steps_bind steps_check_output steps_lift assms) simp

lemma steps_is_running:
  assumes "\<And>e. start_event e \<Longrightarrow> P e"
  shows "steps P proj st tr (is_running env st tr)"
  unfolding is_running_def
  by (intro steps_bind steps_check_output assms) (simp_all split: option.splits)

lemma steps_wait_loop:
  assumes ev: "\<And>e. start_event e \<Longrightarrow> P e"
    and fr: "\<And>s ip. proj (s \<lparr> private_ipv4 := ip \<rparr>) = proj s"
  shows "steps P proj st tr (wait_loop fuel env st tr)"
proof (induction fuel arbitrary: st tr)
  case 0
  show ?case by simp
next
  case (Suc fuel)
  show ?case
    unfolding wait_loop.simps
    apply (rule steps_bind)
     apply (rule steps_parse_ip [OF ev], assumption)
    apply (simp split: if_splits)
    apply (intro conjI impI)
     apply (simp add: steps_def fr)
    apply (intro steps_bind steps_emit ev Suc.IH)
     apply simp_all
    done
qed

lemma steps_wait_for_ip:
  assumes ev: "\<And>e. start_event e \<Longrightarrow> P e"
    and fr: "\<And>s ip. proj (s \<lparr> private_ipv4 := ip \<rparr>) = proj s"
  shows "steps P proj st tr (wait_for_ip fuel env st tr)"
  unfolding wait_for_ip_def
  apply (intro steps_bind steps_emit ev steps_wait_loop fr)
    apply simp
   apply assumption
  apply (simp split: option.splits)
  apply (intro allI impI steps_emit ev)
  apply simp
  done

lemma steps_start:
  assumes ev: "\<And>e. start_event e \<Longrightarrow> P e"
    and fr: "\<And>s ip. proj (s \<lparr> private_ipv4 := ip \<rparr>) = proj s"
  shows "steps P proj st tr (start fuel env st tr)"
  unfolding start_def
  apply (simp split: if_splits)
  apply (intro impI)
  apply (rule steps_bind)
   apply (rule steps_is_running [OF ev], assumption)
  apply (simp split: if_splits)
  apply (intro conjI impI)
   apply (intro steps_bind steps_emit ev steps_parse_ip)
     apply simp
    apply assumption
   apply (simp add: steps_def fr)
  apply (intro steps_bind steps_emit ev steps_logged_exec steps_wait_for_ip fr)
    apply simp
   apply (simp add: truthy_def split: option.splits)
  apply assumption
  done

lemma create_eq:
  "create fuel env defn st tr =
     (case networks defn of
        [] \<Rightarrow> (Raise IndexError, st \<lparr> common := set_common_state env defn (common st) \<rparr>, tr)
      | first_net # _ \<Rightarrow>
          bind (if \<not> truthy (primary_mac st)
                then generate_primary_mac env
                       (st \<lparr> common := set_common_state env defn (common st), primary_net := first_net \<rparr>) tr
                else (Return (),
                      st \<lparr> common := set_common_state env defn (common st), primary_net := first_net \<rparr>,
                      tr))
            (\<lambda>_. after_mac fuel env defn))"
proof -
  have "after_mac fuel env defn =
      (\<lambda>st tr.
         bind (if \<not> truthy (client_public_key st) then create_key_pair env st tr
               else (Return (), st, tr)) (\<lambda>_ st tr.
         bind (if vm_id st = None then provision env defn st tr
               else (Return (), st, tr)) (\<lambda>_ st tr.
         bind (start fuel env st tr) (\<lambda>_ st tr.
           (Return True, st, tr)))))"
    by (intro ext) (simp add: after_mac_def)
  then show ?thesis by (simp add: create_def split: list.splits)
qed

lemma steps_make_domain_xml:
  assumes "\<And>e. provisioning_event e \<Longrightarrow> P e"
  shows "steps P proj st tr (make_domain_xml env defn st tr)"
  unfolding make_domain_xml_def
  apply (rule steps_bind)
   apply (simp add: find_executable_def steps_one assms)
  apply (simp split: option.splits)
  done

lemma steps_extra_disk_base_image_path:
  assumes "\<And>e. provisioning_event e \<Longrightarrow> P e"
  shows "steps P proj st tr (extra_disk_base_image_path env disk_name disk_defn st tr)"
  unfolding extra_disk_base_image_path_def
  by (intro steps_bind steps_logged_exec assms) simp_all

lemma steps_copy_extra_disks_loop:
  assumes ev: "\<And>e. provisioning_event e \<Longrightarrow> P e"
  shows "steps P proj st tr (copy_extra_disks_loop env defn items out st tr)"
proof (induction items arbitrary: out st tr)
  case Nil
  show ?case by simp
next
  case (Cons item items)
  obtain disk_name disk_defn where item: "item = (disk_name, disk_defn)" by (cases item)
  show ?case
    unfolding item copy_extra_disks_loop.simps
    by (intro steps_bind steps_extra_disk_base_image_path steps_logged_exec ev Cons.IH) simp_all
qed

lemma steps_from:
  "steps P proj st' tr m \<Longrightarrow> proj st' = proj st \<Longrightarrow> steps P proj st tr m"
  by (auto simp: steps_def)

lemma steps_provision:
  assumes ev: "\<And>e. provisioning_event e \<Longrightarrow> P e"
    and fr: "\<And>s a b. proj (s \<lparr> extra_disks := a, vm_id := b \<rparr>) = proj s"
      "\<And>s a. proj (s \<lparr> disk_path := a \<rparr>) = proj s"
      "\<And>s a. proj (s \<lparr> domain_xml := a \<rparr>) = proj s"
  shows "steps P proj st tr (provision env defn st tr)"
  unfolding provision_def
  apply (simp split: option.splits)
  apply (intro allI impI)
  apply (rule steps_bind)
   apply (rule steps_logged_exec, rule ev, simp)
  apply (rule steps_bind)
   apply (simp add: os_access_def steps_one ev)
  apply (simp split: if_splits)
  apply (intro impI)
  apply (rule steps_bind)
   apply (rule steps_from)
    apply (rule steps_file_op, rule ev, simp)
   apply (rule fr)
  apply (rule steps_bind)
   apply (rule steps_logged_exec, rule ev, simp)
  apply (rule steps_bind)
   apply (rule steps_file_op, rule ev, simp)
  apply (rule steps_bind)
   apply (simp add: copy_extra_disks_def steps_copy_extra_disks_loop ev)
  apply (rule steps_bind)
   apply (rule steps_from)
    apply (rule steps_make_domain_xml [OF ev], assumption)
   apply (rule fr)
  apply (rule steps_bind)
   apply (rule steps_from)
    apply (rule steps_file_op, rule ev, simp)
   apply (rule fr)
  apply (rule steps_bind)
   apply (rule steps_logged_exec, rule ev, simp)
  apply simp
  done

lemma steps_create_key_pair:
  assumes "P CreateKeyPair"
    and "\<And>s a b. proj (s \<lparr> client_private_key := a, client_public_key := b \<rparr>) = proj s"
  shows "steps P proj st tr (create_key_pair env st tr)"
  using assms by (simp add: create_key_pair_def steps_def)

lemma steps_after_mac:
  assumes ev: "\<And>e. start_event e \<Longrightarrow> P e" "P CreateKeyPair"
      "vm_id st = None \<Longrightarrow> (\<And>e. provisioning_event e \<Longrightarrow> P e)"
    and fr: "\<And>s a b. proj (s \<lparr> client_private_key := a, client_public_key := b \<rparr>) = proj s"
      "\<And>s ip. proj (s \<lparr> private_ipv4 := ip \<rparr>) = proj s"
      "vm_id st = None \<Longrightarrow> (\<And>s a b. proj (s \<lparr> extra_disks := a, vm_id := b \<rparr>) = proj s)"
      "vm_id st = None \<Longrightarrow> (\<And>s a. proj (s \<lparr> disk_path := a \<rparr>) = proj s)"
      "vm_id st = None \<Longrightarrow> (\<And>s a. proj (s \<lparr> domain_xml := a \<rparr>) = proj s)"
  shows "steps P proj st tr (after_mac fuel env defn st tr)"
proof -
  have key: "steps P proj st tr
      (if \<not> truthy (client_public_key st) then create_key_pair env st tr else (Return (), st, tr))"
    by (simp add: steps_create_key_pair ev fr)
  have same_id: "vm_id st1 = vm_id st"
    if "(if \<not> truthy (client_public_key st) then create_key_pair env st tr else (Return (), st, tr)) =
        (Return a, st1, tr1)" for a st1 tr1
    using that by (auto simp: create_key_pair_def split: if_splits)
  show ?thesis
    unfolding after_mac_def
    apply (rule steps_bind [OF key])
    apply (drule same_id)
    apply (rule steps_bind)
     apply (simp split: if_splits)
     apply (intro impI steps_provision)
        apply (simp_all add: ev fr)[4]
    apply (rule steps_bind)
     apply (rule steps_start)
      apply (simp_all add: ev fr)
    done
qed

subsection \<open>The MAC is assigned once\<close>

lemma start_event_not_mac_draw: "start_event e \<Longrightarrow> \<not> mac_draw e"
  by (cases e) simp_all

lemma provisioning_event_not_mac_draw: "provisioning_event e \<Longrightarrow> \<not> mac_draw e"
  by (cases e) simp_all

lemma after_mac_keeps_mac:
  "steps (\<lambda>e. \<not> mac_draw e) primary_mac st tr (after_mac fuel env defn st tr)"
  by (rule steps_after_mac)
    (simp_all add: start_event_not_mac_draw provisioning_event_not_mac_draw)

lemma generated_mac_truthy: "truthy (Some (py_join '':'' (map fmt_02x [a, b, c, d, e, f])))"
  by (simp add: truthy_def)

lemma create_mac_draws:
  assumes run: "create fuel env defn st tr = (r, st', tr')"
  shows "\<exists>evs. tr' = tr @ evs \<and>
           (if truthy (primary_mac st)
            then primary_mac st' = primary_mac st \<and> list_all (\<lambda>e. \<not> mac_draw e) evs
            else (primary_mac st' = primary_mac st \<and> filter mac_draw evs = []) \<or>
                 (truthy (primary_mac st') \<and> length (filter mac_draw evs) = 3))"
proof (cases "networks defn")
  case Nil
  with run show ?thesis by (auto simp: create_eq)
next
  case (Cons n ns)
  let ?st0 = "st \<lparr> common := set_common_state env defn (common st), primary_net := n \<rparr>"
  show ?thesis
  proof (cases "truthy (primary_mac st)")
    case True
    with run Cons have "after_mac fuel env defn ?st0 tr = (r, st', tr')"
      by (simp add: create_eq)
    with after_mac_keeps_mac [of ?st0 tr fuel env defn] True show ?thesis
      by (auto simp: steps_def)
  next
    case False
    let ?mac = "py_join '':'' (map fmt_02x
             [0x52, 0x54, 0x00,
              randint_raw env tr mod 128,
              randint_raw env (tr @ [RandInt 0x00 0x7f]) mod 256,
              randint_raw env (tr @ [RandInt 0x00 0x7f, RandInt 0x00 0xff]) mod 256])"
    let ?st1 = "?st0 \<lparr> primary_mac := Some ?mac \<rparr>"
    let ?tr1 = "tr @ [RandInt 0x00 0x7f, RandInt 0x00 0xff, RandInt 0x00 0xff]"
    from run Cons False have "after_mac fuel env defn ?st1 ?tr1 = (r, st', tr')"
      by (simp add: create_eq generate_primary_mac_eq)
    with after_mac_keeps_mac [of ?st1 ?tr1 fuel env defn]
    obtain evs where evs: "tr' = ?tr1 @ evs" "list_all (\<lambda>e. \<not> mac_draw e) evs"
      and mac: "primary_mac st' = Some ?mac"
      by (auto simp: steps_def)
    from evs(2) have "filter mac_draw evs = []"
      by (simp add: list_all_iff)
    with evs(1) mac False show ?thesis
      using generated_mac_truthy by (auto simp del: py_join.simps list.map)
  qed
qed

lemma creates_mac_draws:
  "creates calls st tr = (st', tr') \<Longrightarrow>
   \<exists>evs. tr' = tr @ evs \<and>
     (if truthy (primary_mac st)
      then primary_mac st' = primary_mac st \<and> filter mac_draw evs = []
      else (primary_mac st' = primary_mac st \<and> filter mac_draw evs = []) \<or>
           (truthy (primary_mac st') \<and> length (filter mac_draw evs) = 3))"
proof (induction calls arbitrary: st tr)
  case Nil
  then show ?case by simp
next
  case (Cons call calls)
  obtain fuel env defn where call: "call = (fuel, env, defn)" by (cases call)
  obtain r st1 tr1 where one: "create fuel env defn st tr = (r, st1, tr1)"
    by (cases "create fuel env defn st tr")
  with Cons.prems call have rest: "creates calls st1 tr1 = (st', tr')" by simp
  from create_mac_draws [OF one] obtain evs1 where
    evs1: "tr1 = tr @ evs1"
    and h1: "if truthy (primary_mac st)
            then primary_mac st1 = primary_mac st \<and> list_all (\<lambda>e. \<not> mac_draw e) evs1
            else (primary_mac st1 = primary_mac st \<and> filter mac_draw evs1 = []) \<or>
                 (truthy (primary_mac st1) \<and> length (filter mac_draw evs1) = 3)"
    by blast
  from Cons.IH [OF rest] obtain evs2 where
    evs2: "tr' = tr1 @ evs2"
    and h2: "if truthy (primary_mac st1)
      then primary_mac st' = primary_mac st1 \<and> filter mac_draw evs2 = []
      else (primary_mac st' = primary_mac st1 \<and> filter mac_draw evs2 = []) \<or>
           (truthy (primary_mac st') \<and> length (filter mac_draw evs2) = 3)"
    by blast
  have "tr' = tr @ (evs1 @ evs2)" using evs1 evs2 by simp
  moreover have "if truthy (primary_mac st)
      then primary_mac st' = primary_mac st \<and> filter mac_draw (evs1 @ evs2) = []
      else (primary_mac st' = primary_mac st \<and> filter mac_draw (evs1 @ evs2) = []) \<or>
           (truthy (primary_mac st') \<and> length (filter mac_draw (evs1 @ evs2)) = 3)"
    using h1 h2 by (auto simp: list_all_iff filter_empty_conv split: if_splits)
  ultimately show ?case by blast
qed

text \<open>
  C8. When \<open>primary_mac\<close> is set, a call of \<open>create\<close> makes no draw and leaves the MAC
  as it is, however the call ends. Over any sequence of calls of \<open>create\<close>, each
  continuing from the state and the trace the previous one left (also after a raise),
  the draws made are none or the three draws of a single generation, and none when the
  MAC was set at the start.
\<close>

theorem assign_mac_once:
  "(truthy (primary_mac st) \<and> create fuel env defn st tr = (r, st1, tr1) \<longrightarrow>
      primary_mac st1 = primary_mac st \<and>
      (\<exists>evs. tr1 = tr @ evs \<and> list_all (\<lambda>e. \<not> mac_draw e) evs)) \<and>
   (creates calls st tr = (st', tr') \<longrightarrow>
      (\<exists>evs. tr' = tr @ evs \<and>
         (length (filter mac_draw evs) = 0 \<or> length (filter mac_draw evs) = 3) \<and>
         (truthy (primary_mac st) \<longrightarrow>
            length (filter mac_draw evs) = 0 \<and> primary_mac st' = primary_mac st)))"
proof (intro conjI impI)
  assume a: "truthy (primary_mac st) \<and> create fuel env defn st tr = (r, st1, tr1)"
  with create_mac_draws [of fuel env defn st tr r st1 tr1]
  show "primary_mac st1 = primary_mac st" by auto
  from a create_mac_draws [of fuel env defn st tr r st1 tr1]
  show "\<exists>evs. tr1 = tr @ evs \<and> list_all (\<lambda>e. \<not> mac_draw e) evs" by auto
next
  assume "creates calls st tr = (st', tr')"
  from creates_mac_draws [OF this]
  show "\<exists>evs. tr' = tr @ evs \<and>
         (length (filter mac_draw evs) = 0 \<or> length (filter mac_draw evs) = 3) \<and>
         (truthy (primary_mac st) \<longrightarrow>
            length (filter mac_draw evs) = 0 \<and> primary_mac st' = primary_mac st)"
    by (auto split: if_splits)
qed

lemmas example_defs =
  example_env_def example_state_def example_defn_def host_env_def defined_state_def
  leased_state_def lease_env_def failing_build_env_def unwritable_env_def

lemmas run_defs =
  create_def provision_def start_def stop_def destroy_def is_running_def wait_for_ip_def
  parse_ip_def find_lease_def generate_primary_mac_def randint_def create_key_pair_def
  logged_exec_def check_output_def os_access_def os_path_exists_def file_op_def emit_def
  copy_extra_disks_def extra_disk_base_image_path_def vm_id_of_def disk_path_of_def
  truthy_def py_str_def rstrip_def split_first_def

theorem assign_mac_once_witness:
  "truthy (primary_mac defined_state) \<and>
   create 1 host_env example_defn defined_state [] =
     (Return True, defined_state \<lparr> private_ipv4 := Some ''192.168.122.10'' \<rparr>,
      [CheckOutput [''virsh'', ''-c'', ''qemu:///system'', ''list''],
       Log ''starting...'',
       Exec [''virsh'', ''-c'', ''qemu:///system'', ''start'', ''nixops-d1-web''] [],
       LogStart ''waiting for IP address to appear in DHCP leases...'',
       CheckOutput [''virsh'', ''-c'', ''qemu:///system'', ''net-dhcp-leases'', ''--network'', ''default''],
       LogEnd '' 192.168.122.10'']) \<and>
   creates [(1, failing_build_env, example_defn), (1, failing_build_env, example_defn)] example_state [] =
     (example_state
        \<lparr> client_public_key := Some ''PUBLIC'', client_private_key := Some ''PRIVATE'',
          primary_net := Some ''default'', primary_mac := Some ''52:54:00:2a:2a:2a'' \<rparr>,
      [RandInt 0x00 0x7f, RandInt 0x00 0xff, RandInt 0x00 0xff, CreateKeyPair,
       image_build_event example_state ''PUBLIC'', image_build_event example_state ''PUBLIC'']) \<and>
   (\<exists>evs. snd (creates [(1, failing_build_env, example_defn), (1, failing_build_env, example_defn)]
               example_state []) = [] @ evs \<and>
          (length (filter mac_draw evs) = 0 \<or> length (filter mac_draw evs) = 3))"
proof -
  have a: "truthy (primary_mac defined_state)"
    by (simp add: example_defs truthy_def)
  have b: "create 1 host_env example_defn defined_state [] =
     (Return True, defined_state \<lparr> private_ipv4 := Some ''192.168.122.10'' \<rparr>,
      [CheckOutput [''virsh'', ''-c'', ''qemu:///system'', ''list''],
       Log ''starting...'',
       Exec [''virsh'', ''-c'', ''qemu:///system'', ''start'', ''nixops-d1-web''] [],
       LogStart ''waiting for IP address to appear in DHCP leases...'',
       CheckOutput [''virsh'', ''-c'', ''qemu:///system'', ''net-dhcp-leases'', ''--network'', ''default''],
       LogEnd '' 192.168.122.10''])"
    by (simp add: example_defs run_defs py_split_lease_table)
  have c: "creates [(1, failing_build_env, example_defn), (1, failing_build_env, example_defn)] example_state [] =
     (example_state
        \<lparr> client_public_key := Some ''PUBLIC'', client_private_key := Some ''PRIVATE'',
          primary_net := Some ''default'', primary_mac := Some ''52:54:00:2a:2a:2a'' \<rparr>,
      [RandInt 0x00 0x7f, RandInt 0x00 0xff, RandInt 0x00 0xff, CreateKeyPair,
       image_build_event example_state ''PUBLIC'', image_build_event example_state ''PUBLIC''])"
    by (simp add: example_defs run_defs image_build_event_def fmt_02x_def)
  show ?thesis
    using a b c
      assign_mac_once [of defined_state 1 host_env example_defn "[]" "Return True"
        "defined_state \<lparr> private_ipv4 := Some ''192.168.122.10'' \<rparr>" _
        "[(1, failing_build_env, example_defn), (1, failing_build_env, example_defn)]"
        "fst (creates [(1, failing_build_env, example_defn), (1, failing_build_env, example_defn)]
               defined_state [])"
        "snd (creates [(1, failing_build_env, example_defn), (1, failing_build_env, example_defn)]
               defined_state [])"]
      assign_mac_once [of example_state 1 host_env example_defn "[]" "Return True" example_state "[]"
        "[(1, failing_build_env, example_defn), (1, failing_build_env, example_defn)]"
        "fst (creates [(1, failing_build_env, example_defn), (1, failing_build_env, example_defn)]
               example_state [])"
        "snd (creates [(1, failing_build_env, example_defn), (1, failing_build_env, example_defn)]
               example_state [])", THEN conjunct2]
    by simp
qed

subsection \<open>The primary network\<close>

lemma after_mac_keeps_net:
  "steps (\<lambda>e. True) primary_net st tr (after_mac fuel env defn st tr)"
  by (rule steps_after_mac) simp_all

text \<open>
  C5 (amended). Every call of \<open>create\<close> with a definition that lists a network stores
  the first network of that definition as \<open>primary_net\<close>, whatever was stored before
  and however the call ends; with an empty list it raises IndexError and stores
  nothing. So a later call leaves \<open>primary_net\<close> as it was exactly when its definition
  has the stored network first.
\<close>

theorem create_sets_primary_net:
  assumes run: "create fuel env defn st tr = (r, st', tr')"
  shows "(networks defn = [] \<longrightarrow> r = Raise IndexError \<and> primary_net st' = primary_net st) \<and>
         (\<forall>n ns. networks defn = n # ns \<longrightarrow>
            primary_net st' = n \<and> (primary_net st' = primary_net st) = (n = primary_net st))"
proof (intro conjI impI allI)
  assume "networks defn = []"
  with run show "r = Raise IndexError" "primary_net st' = primary_net st"
    by (auto simp: create_eq)
next
  fix n ns
  assume nets: "networks defn = n # ns"
  let ?st0 = "st \<lparr> common := set_common_state env defn (common st), primary_net := n \<rparr>"
  have "primary_net st' = n"
  proof (cases "truthy (primary_mac st)")
    case True
    with run nets have "after_mac fuel env defn ?st0 tr = (r, st', tr')"
      by (simp add: create_eq)
    with after_mac_keeps_net [of ?st0 tr fuel env defn] show ?thesis
      by (auto simp: steps_def)
  next
    case False
    with run nets obtain mac evs where
      "after_mac fuel env defn (?st0 \<lparr> primary_mac := Some mac \<rparr>) (tr @ evs) = (r, st', tr')"
      by (simp add: create_eq generate_primary_mac_eq)
    with after_mac_keeps_net [of "?st0 \<lparr> primary_mac := Some mac \<rparr>" "tr @ evs" fuel env defn]
    show ?thesis
      by (auto simp: steps_def)
  qed
  then show "primary_net st' = n" "(primary_net st' = primary_net st) = (n = primary_net st)"
    by simp_all
qed

theorem create_sets_primary_net_witness:
  "networks example_defn = [Some ''default''] \<and>
   primary_net defined_state = Some ''default'' \<and>
   create 1 host_env example_defn defined_state [] =
     (Return True, defined_state \<lparr> private_ipv4 := Some ''192.168.122.10'' \<rparr>,
      [CheckOutput [''virsh'', ''-c'', ''qemu:///system'', ''list''],
       Log ''starting...'',
       Exec [''virsh'', ''-c'', ''qemu:///system'', ''start'', ''nixops-d1-web''] [],
       LogStart ''waiting for IP address to appear in DHCP leases...'',
       CheckOutput [''virsh'', ''-c'', ''qemu:///system'', ''net-dhcp-leases'', ''--network'', ''default''],
       LogEnd '' 192.168.122.10'']) \<and>
   primary_net (defined_state \<lparr> private_ipv4 := Some ''192.168.122.10'' \<rparr>) = Some ''default''"
proof -
  have run: "create 1 host_env example_defn defined_state [] =
     (Return True, defined_state \<lparr> private_ipv4 := Some ''192.168.122.10'' \<rparr>,
      [CheckOutput [''virsh'', ''-c'', ''qemu:///system'', ''list''],
       Log ''starting...'',
       Exec [''virsh'', ''-c'', ''qemu:///system'', ''start'', ''nixops-d1-web''] [],
       LogStart ''waiting for IP address to appear in DHCP leases...'',
       CheckOutput [''virsh'', ''-c'', ''qemu:///system'', ''net-dhcp-leases'', ''--network'', ''default''],
       LogEnd '' 192.168.122.10''])"
    by (simp add: example_defs run_defs py_split_lease_table)
  have nets: "networks example_defn = [Some ''default'']"
    by (simp add: example_defn_def)
  from create_sets_primary_net [OF run, THEN conjunct2, THEN spec, THEN spec, THEN mp, OF nets]
  show ?thesis
    using run nets by (simp add: defined_state_def)
qed

text \<open>
  C5 as stated fails: on an identity that a completed \<open>create\<close> left with
  \<open>primary_net = default\<close>, a second call whose definition lists \<open>isolated\<close> first
  stores \<open>isolated\<close> (and looks the address up on that network).
\<close>

theorem create_sets_primary_net_counterexample:
  "vm_id defined_state = Some ''nixops-d1-web'' \<and>
   primary_net defined_state = Some ''default'' \<and>
   create 1 host_env (example_defn \<lparr> networks := [Some ''isolated'', Some ''default''] \<rparr>)
     defined_state [] =
     (Return True,
      defined_state \<lparr> primary_net := Some ''isolated'', private_ipv4 := Some ''192.168.122.10'' \<rparr>,
      [CheckOutput [''virsh'', ''-c'', ''qemu:///system'', ''list''],
       Log ''starting...'',
       Exec [''virsh'', ''-c'', ''qemu:///system'', ''start'', ''nixops-d1-web''] [],
       LogStart ''waiting for IP address to appear in DHCP leases...'',
       CheckOutput [''virsh'', ''-c'', ''qemu:///system'', ''net-dhcp-leases'', ''--network'', ''isolated''],
       LogEnd '' 192.168.122.10''])"
  by (simp add: example_defs run_defs py_split_lease_table)

subsection \<open>An image directory that is not writable\<close>

lemma mac_step:
  "\<exists>st1 evs.
     (if \<not> truthy (primary_mac st) then generate_primary_mac env st tr else (Return (), st, tr)) =
       (Return (), st1, tr @ evs) \<and>
     list_all prologue_event evs \<and> vm_id st1 = vm_id st \<and> disk_path st1 = disk_path st \<and>
     client_public_key st1 = client_public_key st \<and> depl st1 = depl st \<and> name st1 = name st"
  by (cases "truthy (primary_mac st)") (simp_all add: generate_primary_mac_eq)

lemma key_step:
  "\<exists>st1 evs pubkey.
     (if \<not> truthy (client_public_key st) then create_key_pair env st tr else (Return (), st, tr)) =
       (Return (), st1, tr @ evs) \<and>
     list_all prologue_event evs \<and> vm_id st1 = vm_id st \<and> disk_path st1 = disk_path st \<and>
     client_public_key st1 = Some pubkey \<and> depl st1 = depl st \<and> name st1 = name st"
  by (cases "client_public_key st") (auto simp: create_key_pair_def truthy_def)

lemma provision_unwritable:
  assumes "client_public_key st = Some pubkey"
    and "\<forall>t. \<not> access_result env t (image_dir defn)"
  shows "provision env defn st tr =
     (case exec_result env tr (image_build_event st pubkey) of
        None \<Rightarrow> (Raise CommandFailed, st, tr @ [image_build_event st pubkey])
      | Some out \<Rightarrow>
          (Raise (Exception (image_dir defn @ '' is not writable by this user or it does not exist'')),
           st, tr @ [image_build_event st pubkey, Access (image_dir defn)]))"
  using assms
  by (simp add: provision_def logged_exec_def os_access_def image_build_event_def comp_def
      split: option.splits)

text \<open>
  C3 (amended). On a first \<open>create\<close> (no \<open>vm_id\<close>) with an image directory that is not
  writable, the image builder is invoked first. If the build fails, \<open>create\<close> raises
  the build's failure; if it succeeds, the directory is tested next and \<open>create\<close>
  raises the exception about the directory. Either way nothing after the test runs: no
  disk is written, and \<open>vm_id\<close> and \<open>disk_path\<close> stay unset.
\<close>

theorem create_unwritable_image_dir:
  assumes fresh: "vm_id st = None"
    and nets: "networks defn \<noteq> []"
    and unwritable: "\<forall>t. \<not> access_result env t (image_dir defn)"
  shows "\<exists>st' evs pubkey.
     list_all prologue_event evs \<and> vm_id st' = None \<and> disk_path st' = disk_path st \<and>
     (case exec_result env (tr @ evs) (image_build_event st pubkey) of
        None \<Rightarrow>
          create fuel env defn st tr =
            (Raise CommandFailed, st', tr @ evs @ [image_build_event st pubkey])
      | Some out \<Rightarrow>
          create fuel env defn st tr =
            (Raise (Exception (image_dir defn @ '' is not writable by this user or it does not exist'')),
             st', tr @ evs @ [image_build_event st pubkey, Access (image_dir defn)]))"
proof -
  from nets obtain n ns where n: "networks defn = n # ns" by (cases "networks defn") auto
  let ?st0 = "st \<lparr> common := set_common_state env defn (common st), primary_net := n \<rparr>"
  from mac_step [of ?st0 env tr] obtain st1 evs1 where
    s1: "(if \<not> truthy (primary_mac st) then generate_primary_mac env ?st0 tr else (Return (), ?st0, tr)) =
       (Return (), st1, tr @ evs1)"
    and p1: "list_all prologue_event evs1" "vm_id st1 = None" "disk_path st1 = disk_path st"
      "depl st1 = depl st" "name st1 = name st"
    using fresh by auto
  from key_step [of st1 env "tr @ evs1"] obtain st2 evs2 pubkey where
    s2: "(if \<not> truthy (client_public_key st1) then create_key_pair env st1 (tr @ evs1)
          else (Return (), st1, tr @ evs1)) = (Return (), st2, (tr @ evs1) @ evs2)"
    and p2: "list_all prologue_event evs2" "vm_id st2 = None" "disk_path st2 = disk_path st"
      "client_public_key st2 = Some pubkey" "depl st2 = depl st" "name st2 = name st"
    using p1 by auto
  have ev: "image_build_event st2 pubkey = image_build_event st pubkey"
    using p2 by (simp add: image_build_event_def)
  have "create fuel env defn st tr = bind (provision env defn st2 (tr @ evs1 @ evs2))
      (\<lambda>_ st tr. bind (start fuel env st tr) (\<lambda>_ st tr. (Return True, st, tr)))"
    using n s1 s2 p2 by (simp add: create_eq after_mac_def)
  then have "create fuel env defn st tr =
     (case exec_result env (tr @ evs1 @ evs2) (image_build_event st pubkey) of
        None \<Rightarrow> (Raise CommandFailed, st2, (tr @ evs1 @ evs2) @ [image_build_event st pubkey])
      | Some out \<Rightarrow>
          (Raise (Exception (image_dir defn @ '' is not writable by this user or it does not exist'')),
           st2, (tr @ evs1 @ evs2) @ [image_build_event st pubkey, Access (image_dir defn)]))"
    using provision_unwritable [OF p2(4) unwritable, of "tr @ evs1 @ evs2"] ev
    by (simp split: option.splits)
  then show ?thesis
    using p1 p2
    by (intro exI [of _ st2] exI [of _ "evs1 @ evs2"] exI [of _ pubkey])
      (simp split: option.splits)
qed

theorem create_unwritable_image_dir_witness:
  "vm_id leased_state = None \<and> networks example_defn \<noteq> [] \<and>
   (\<forall>t. \<not> access_result unwritable_env t (image_dir example_defn)) \<and>
   (\<exists>st' evs pubkey.
     list_all prologue_event evs \<and> vm_id st' = None \<and> disk_path st' = disk_path leased_state \<and>
     create 1 unwritable_env example_defn leased_state [] =
       (Raise (Exception ''/var/lib/libvirt/images is not writable by this user or it does not exist''),
        st', [] @ evs @ [image_build_event leased_state pubkey, Access ''/var/lib/libvirt/images'']))"
proof -
  have a: "vm_id leased_state = None" "networks example_defn \<noteq> []"
    "\<forall>t. \<not> access_result unwritable_env t (image_dir example_defn)"
    by (simp_all add: example_defs)
  have b: "exec_result unwritable_env t e = Some ''/nix/store/image\<newline>''" for t e
    by (simp add: example_defs)
  from create_unwritable_image_dir [OF a, where tr = "[]" and fuel = 1]
  show ?thesis
    using a by (simp add: b) (simp add: example_defn_def)
qed

text \<open>
  C3 as stated fails: on a fresh identity and a host whose image directory is not
  writable, the image builder has been invoked when \<open>create\<close> raises; the test of the
  directory is the event after it.
\<close>

theorem create_unwritable_image_dir_counterexample:
  "vm_id example_state = None \<and>
   \<not> access_result unwritable_env [] (image_dir example_defn) \<and>
   create 1 unwritable_env example_defn example_state [] =
     (Raise (Exception ''/var/lib/libvirt/images is not writable by this user or it does not exist''),
      example_state
        \<lparr> client_public_key := Some ''PUBLIC'', client_private_key := Some ''PRIVATE'',
          primary_net := Some ''default'', primary_mac := Some ''52:54:00:2a:2a:2a'' \<rparr>,
      [RandInt 0x00 0x7f, RandInt 0x00 0xff, RandInt 0x00 0xff, CreateKeyPair,
       Exec [''nix-build'', ''--arg'', ''checkConfigurationOptions'', ''false'',
             ''-A'', ''nodes.web.config.deployment.libvirtd.baseImage'',
             ''-o'', ''/tmp/nixops/libvirtd-image-web'']
            [(''NIXOPS_LIBVIRTD_PUBKEY'', ''PUBLIC'')],
       Access ''/var/lib/libvirt/images''])"
  by (simp add: example_defs run_defs fmt_02x_def)

subsection \<open>Destroying a machine\<close>

lemma steps_stop:
  assumes fr: "\<And>s a. proj (s \<lparr> state := a \<rparr>) = proj s"
  shows "steps (\<lambda>e. True) proj st tr (stop env st tr)"
proof (cases "truthy (vm_id st)")
  case False
  then show ?thesis by (simp add: stop_def)
next
  case True
  have shut: "steps (\<lambda>e. True) proj s t
      (if a then
         bind (emit (LogStart ''shutting down... '') s t) (\<lambda>_ st tr.
         bind (logged_exec env
                 [Some ''virsh'', Some ''-c'', Some ''qemu:///system'', Some ''destroy'', vm_id st]
                 [] st tr) (\<lambda>_ st tr.
           (Return (), st, tr)))
       else emit (Log ''not running'') s t)" for a and s :: "'a LibvirtdState" and t
    by (cases a) (auto intro!: steps_bind steps_emit steps_logged_exec)
  show ?thesis
    unfolding stop_def using True
    apply simp
    apply (rule steps_bind)
     apply (rule steps_is_running, simp)
    apply (rule steps_bind)
     apply (rule shut)
    apply (simp add: steps_def fr)
    done
qed

lemma steps_delete:
  "steps (\<lambda>e. True) proj st tr
     (bind (os_path_exists env path st tr) (\<lambda>present st tr.
        if present then file_op env (Unlink path) st tr else (Return (), st, tr)))"
  by (simp add: os_path_exists_def file_op_def steps_def)

lemma steps_unlink_extra_disks:
  "steps (\<lambda>e. True) proj st tr (unlink_extra_disks env ds st tr)"
proof (induction ds arbitrary: st tr)
  case Nil
  show ?case by simp
next
  case (Cons d ds)
  obtain disk_name disk_state where d: "d = (disk_name, disk_state)" by (cases d)
  show ?case
    unfolding d unlink_extra_disks.simps
    apply (rule steps_bind)
     apply (simp add: steps_delete split: if_splits)
    apply (rule Cons.IH)
    done
qed

lemma steps_destroy:
  assumes fr: "\<And>s a. proj (s \<lparr> state := a \<rparr>) = proj s"
  shows "steps (\<lambda>e. True) proj st tr (destroy env st tr)"
  unfolding destroy_def
  apply (simp split: if_splits)
  apply (intro impI)
  apply (rule steps_bind)
   apply (rule steps_emit, simp)
  apply (rule steps_bind)
   apply (rule steps_stop [OF fr])
  apply (rule steps_bind)
   apply (rule steps_logged_exec, simp)
  apply (rule steps_bind)
   apply (simp add: steps_delete split: option.splits)
  apply (rule steps_bind)
   apply (rule steps_unlink_extra_disks)
  apply simp
  done

lemma unlink_extra_disks_dependable:
  assumes "\<forall>t e. file_op_ok env t e"
  shows "unlink_extra_disks env ds st tr =
     (Return (), st,
      foldl (delete_if_present env) tr (map (\<lambda>(disk_name, disk_state). imagePath disk_state) ds))"
proof (induction ds arbitrary: tr)
  case Nil
  show ?case by simp
next
  case (Cons d ds)
  obtain disk_name disk_state where d: "d = (disk_name, disk_state)" by (cases d)
  show ?case
    using assms
    by (simp add: d Cons.IH os_path_exists_def file_op_def delete_if_present_def)
qed

text \<open>
  C2 (amended). \<open>destroy\<close> never clears \<open>vm_id\<close>: however it ends, every attribute but
  \<open>state\<close> is as before. On an identity with a \<open>vm_id\<close>, when the query of the running
  domains answers and no command or file operation fails, \<open>destroy\<close> returns True
  with \<open>state\<close> set to STOPPED, after it has stopped the domain if it was running,
  issued \<^verbatim>\<open>virsh undefine\<close>, and then, for the primary disk and the image of every
  extra disk in turn, asked whether the file exists and unlinked it if so.
\<close>

theorem destroy_keeps_vm_id:
  "(destroy env st tr = (r, st', tr') \<longrightarrow>
      vm_id st' = vm_id st \<and> st' \<lparr> state := state st \<rparr> = st) \<and>
   (vm_id st = Some v \<and> v \<noteq> [] \<and>
    check_output_result env (tr @ [LogStart ''destroying... ''])
      [''virsh'', ''-c'', ''qemu:///system'', ''list''] = Some ls \<and>
    (\<forall>t e. exec_result env t e \<noteq> None) \<and> (\<forall>t e. file_op_ok env t e) \<longrightarrow>
      destroy env st tr =
        (Return True, st \<lparr> state := STOPPED st \<rparr>,
         foldl (delete_if_present env)
           (tr @ [LogStart ''destroying... '',
                  CheckOutput [''virsh'', ''-c'', ''qemu:///system'', ''list'']] @
                 (if contains ls v
                  then [LogStart ''shutting down... '',
                        Exec [''virsh'', ''-c'', ''qemu:///system'', ''destroy'', v] []]
                  else [Log ''not running'']) @
                 [Exec [''virsh'', ''-c'', ''qemu:///system'', ''undefine'', v] []])
           (managed_paths st)))"
proof (intro conjI impI)
  assume run: "destroy env st tr = (r, st', tr')"
  have "steps (\<lambda>e. True) (\<lambda>s. s \<lparr> state := 0 \<rparr>) st tr (destroy env st tr)"
    by (rule steps_destroy) simp
  with run have eq: "st' \<lparr> state := 0 \<rparr> = st \<lparr> state := 0 \<rparr>"
    by (simp add: steps_def)
  then have "vm_id (st' \<lparr> state := 0 \<rparr>) = vm_id (st \<lparr> state := 0 \<rparr>)" by simp
  then show "vm_id st' = vm_id st" by simp
  from eq have "(st' \<lparr> state := 0 \<rparr>) \<lparr> state := state st \<rparr> = (st \<lparr> state := 0 \<rparr>) \<lparr> state := state st \<rparr>"
    by simp
  then show "st' \<lparr> state := state st \<rparr> = st" by simp
next
  assume h: "vm_id st = Some v \<and> v \<noteq> [] \<and>
    check_output_result env (tr @ [LogStart ''destroying... ''])
      [''virsh'', ''-c'', ''qemu:///system'', ''list''] = Some ls \<and>
    (\<forall>t e. exec_result env t e \<noteq> None) \<and> (\<forall>t e. file_op_ok env t e)"
  then have ex: "\<And>t e. \<exists>out. exec_result env t e = Some out" and ok: "\<forall>t e. file_op_ok env t e"
    by auto
  have exec: "logged_exec env (map Some cmd) vars s t = (Return (the (exec_result env t (Exec cmd vars))), s, t @ [Exec cmd vars])"
    for cmd vars and s :: "'a LibvirtdState" and t
    using ex [of t "Exec cmd vars"] by (auto simp: logged_exec_def comp_def)
  have exec5: "logged_exec env [Some a1, Some a2, Some a3, Some a4, Some a5] vars s t =
      (Return (the (exec_result env t (Exec [a1, a2, a3, a4, a5] vars))), s, t @ [Exec [a1, a2, a3, a4, a5] vars])"
    for a1 a2 a3 a4 a5 vars and s :: "'a LibvirtdState" and t
    using exec [of "[a1, a2, a3, a4, a5]" vars s t] by simp
  show "destroy env st tr =
        (Return True, st \<lparr> state := STOPPED st \<rparr>,
         foldl (delete_if_present env)
           (tr @ [LogStart ''destroying... '',
                  CheckOutput [''virsh'', ''-c'', ''qemu:///system'', ''list'']] @
                 (if contains ls v
                  then [LogStart ''shutting down... '',
                        Exec [''virsh'', ''-c'', ''qemu:///system'', ''destroy'', v] []]
                  else [Log ''not running'']) @
                 [Exec [''virsh'', ''-c'', ''qemu:///system'', ''undefine'', v] []])
           (managed_paths st))"
    using h
    by (cases "disk_path st")
      (simp_all add: destroy_def stop_def is_running_def check_output_def emit_def exec5 truthy_def
        unlink_extra_disks_dependable [OF ok] managed_paths_def delete_if_present_def
        os_path_exists_def file_op_def)
qed

theorem destroy_keeps_vm_id_witness:
  "vm_id defined_state = Some ''nixops-d1-web'' \<and>
   contains '' 1 nixops-d1-web running'' ''nixops-d1-web'' \<and>
   destroy running_env defined_state [] =
     (Return True, defined_state \<lparr> state := 5 \<rparr>,
      [LogStart ''destroying... '',
       CheckOutput [''virsh'', ''-c'', ''qemu:///system'', ''list''],
       LogStart ''shutting down... '',
       Exec [''virsh'', ''-c'', ''qemu:///system'', ''destroy'', ''nixops-d1-web''] [],
       Exec [''virsh'', ''-c'', ''qemu:///system'', ''undefine'', ''nixops-d1-web''] [],
       PathExists ''/var/lib/libvirt/images/nixops-d1-web.img'',
       Unlink ''/var/lib/libvirt/images/nixops-d1-web.img'',
       PathExists ''/var/lib/libvirt/images/nixops-d1-web-data.img'']) \<and>
   vm_id (defined_state \<lparr> state := 5 \<rparr>) = vm_id defined_state"
proof -
  have run: "destroy running_env defined_state [] =
     (Return True, defined_state \<lparr> state := STOPPED defined_state \<rparr>,
         foldl (delete_if_present running_env)
           ([] @ [LogStart ''destroying... '',
                  CheckOutput [''virsh'', ''-c'', ''qemu:///system'', ''list'']] @
                 (if contains '' 1 nixops-d1-web running'' ''nixops-d1-web''
                  then [LogStart ''shutting down... '',
                        Exec [''virsh'', ''-c'', ''qemu:///system'', ''destroy'', ''nixops-d1-web''] []]
                  else [Log ''not running'']) @
                 [Exec [''virsh'', ''-c'', ''qemu:///system'', ''undefine'', ''nixops-d1-web''] []])
           (managed_paths defined_state))"
    by (rule destroy_keeps_vm_id [THEN conjunct2, THEN mp])
      (simp add: example_defs running_env_def)
  from destroy_keeps_vm_id [THEN conjunct1, THEN mp, OF run]
  show ?thesis
    using run
    by (simp add: example_defs running_env_def managed_paths_def delete_if_present_def)
qed

text \<open>
  C2 as stated fails: after a \<open>destroy\<close> that stops nothing (the domain is not
  running), undefines the domain and deletes both disk files, \<open>vm_id\<close> is still set.
\<close>

theorem destroy_keeps_vm_id_counterexample:
  "destroy host_env defined_state [] =
     (Return True, defined_state \<lparr> state := 5 \<rparr>,
      [LogStart ''destroying... '',
       CheckOutput [''virsh'', ''-c'', ''qemu:///system'', ''list''],
       Log ''not running'',
       Exec [''virsh'', ''-c'', ''qemu:///system'', ''undefine'', ''nixops-d1-web''] [],
       PathExists ''/var/lib/libvirt/images/nixops-d1-web.img'',
       Unlink ''/var/lib/libvirt/images/nixops-d1-web.img'',
       PathExists ''/var/lib/libvirt/images/nixops-d1-web-data.img'',
       Unlink ''/var/lib/libvirt/images/nixops-d1-web-data.img'']) \<and>
   vm_id (defined_state \<lparr> state := 5 \<rparr>) = Some ''nixops-d1-web''"
  by (simp add: example_defs run_defs)

subsection \<open>Creating twice\<close>

lemma bind_Return_iff:
  "bind m f = (Return b, st', tr') \<longleftrightarrow>
     (\<exists>a st1 tr1. m = (Return a, st1, tr1) \<and> f a st1 tr1 = (Return b, st', tr'))"
  by (cases m) (auto simp: bind_def split: outcome.splits)

lemma disk_create_is_provisioning: "disk_create_event e \<Longrightarrow> provisioning_event e"
proof (cases e)
  case (Exec cmd vars)
  assume "disk_create_event e"
  with Exec show ?thesis by (cases cmd) auto
qed simp_all

lemma disk_copy_is_provisioning: "disk_copy_event e \<Longrightarrow> provisioning_event e"
  by (cases e) simp_all

lemma render_is_provisioning: "render_event e \<Longrightarrow> provisioning_event e"
  by (cases e) simp_all

lemma registration_is_provisioning: "registration_event e \<Longrightarrow> provisioning_event e"
  by (cases e) simp_all

lemmas counted_events =
  disk_copy_is_provisioning disk_create_is_provisioning render_is_provisioning
  registration_is_provisioning

lemma prologue_not_provisioning: "prologue_event e \<Longrightarrow> \<not> provisioning_event e"
  by (cases e) simp_all

lemma start_not_provisioning: "start_event e \<Longrightarrow> \<not> provisioning_event e"
proof (cases e)
  case (Exec cmd vars)
  assume "start_event e"
  with Exec show ?thesis by (cases cmd) auto
qed simp_all

lemma no_counted_events:
  assumes "list_all (\<lambda>e. \<not> provisioning_event e) evs"
  shows "filter disk_copy_event evs = []" "filter disk_create_event evs = []"
    "filter render_event evs = []" "filter registration_event evs = []"
  using assms counted_events by (auto simp: list_all_iff filter_empty_conv)

lemma logged_exec_Return:
  "logged_exec env cmd vars st tr = (Return out, st', tr') \<Longrightarrow>
     st' = st \<and> tr' = tr @ [Exec (map the cmd) vars]"
  by (auto simp: logged_exec_def split: if_splits option.splits)

lemma file_op_Return:
  "file_op env ev st tr = (Return u, st', tr') \<Longrightarrow> st' = st \<and> tr' = tr @ [ev]"
  by (auto simp: file_op_def split: if_splits)

lemma make_domain_xml_Return:
  "make_domain_xml env defn st tr = (Return xml, st', tr') \<Longrightarrow>
     st' = st \<and> tr' = tr @ [FindExecutable ''qemu-system-x86_64'']"
  by (auto simp: make_domain_xml_def find_executable_def lift_def split: option.splits sum.splits)

lemma logged_exec_Return_iff:
  "logged_exec env cmd vars st tr = (Return out, st', tr') \<longleftrightarrow>
     None \<notin> set cmd \<and> exec_result env tr (Exec (map the cmd) vars) = Some out \<and>
     st' = st \<and> tr' = tr @ [Exec (map the cmd) vars]"
  by (auto simp: logged_exec_def split: option.splits)

lemma file_op_Return_iff:
  "file_op env ev st tr = (Return u, st', tr') \<longleftrightarrow>
     file_op_ok env tr ev \<and> st' = st \<and> tr' = tr @ [ev]"
  by (auto simp: file_op_def)

lemma extra_disk_base_image_path_Return:
  "extra_disk_base_image_path env disk_name disk_defn st tr = (Return base, st', tr') \<Longrightarrow>
     st' = st \<and> (\<exists>cmd. tr' = tr @ [Exec (''nix-build'' # cmd) []])"
  by (auto simp: extra_disk_base_image_path_def bind_Return_iff logged_exec_Return_iff)

lemma copy_extra_disks_loop_Return:
  "copy_extra_disks_loop env defn items out st tr = (Return out', st', tr') \<Longrightarrow>
     st' = st \<and>
     (\<exists>evs. tr' = tr @ evs \<and>
        length (filter disk_create_event evs) = length items \<and>
        filter disk_copy_event evs = [] \<and> filter render_event evs = [] \<and>
        filter registration_event evs = [])"
proof (induction items arbitrary: out tr)
  case Nil
  then show ?case by simp
next
  case (Cons item items)
  obtain disk_name disk_defn where item: "item = (disk_name, disk_defn)" by (cases item)
  from Cons.prems [unfolded item copy_extra_disks_loop.simps]
  obtain base st1 tr1 where
    a: "extra_disk_base_image_path env disk_name disk_defn st tr = (Return base, st1, tr1)"
    and rest1: "bind (logged_exec env
             [Some ''qemu-img'', Some ''create'', Some ''-f'', Some ''qcow2'', Some ''-b'',
              Some base,
              Some (image_dir defn @ ''/'' @ vm_id_of st1 @ ''-'' @ py_str disk_name @ ''.img'')]
             [] st1 tr1) (\<lambda>_ st tr.
       copy_extra_disks_loop env defn items
         (AList.update disk_name
            \<lparr> device = defn_device disk_defn,
              imagePath = image_dir defn @ ''/'' @ vm_id_of st @ ''-'' @ py_str disk_name @ ''.img'' \<rparr>
            out)
         st tr) = (Return out', st', tr')"
    unfolding bind_Return_iff by blast
  from extra_disk_base_image_path_Return [OF a] obtain cmd where
    st1: "st1 = st" and tr1: "tr1 = tr @ [Exec (''nix-build'' # cmd) []]"
    by blast
  from rest1 [unfolded bind_Return_iff logged_exec_Return_iff] obtain out1 cmd2 where
    c: "copy_extra_disks_loop env defn items out1 st1
          (tr1 @ [Exec (''qemu-img'' # ''create'' # cmd2) []]) = (Return out', st', tr')"
    by auto
  from Cons.IH [OF c [unfolded st1]] obtain evs where
    evs: "st' = st" "tr' = (tr1 @ [Exec (''qemu-img'' # ''create'' # cmd2) []]) @ evs"
      "length (filter disk_create_event evs) = length items"
      "filter disk_copy_event evs = []" "filter render_event evs = []"
      "filter registration_event evs = []"
    by blast
  show ?case
    using evs tr1 by simp
qed


lemma provision_Return:
  assumes "provision env defn st tr = (Return u, st', tr')"
  shows "vm_id st' = Some (vm_id_of st) \<and> depl st' = depl st \<and> name st' = name st \<and>
     (\<exists>evs. tr' = tr @ evs \<and>
        length (filter disk_copy_event evs) = 1 \<and>
        length (filter disk_create_event evs) = length (disks defn) \<and>
        length (filter render_event evs) = 1 \<and>
        length (filter registration_event evs) = 1)"
proof (cases "client_public_key st")
  case None
  with assms show ?thesis by (simp add: provision_def)
next
  case (Some pubkey)
  with assms show ?thesis
    by (clarsimp simp: provision_def bind_Return_iff logged_exec_Return_iff file_op_Return_iff
        os_access_def copy_extra_disks_def vm_id_of_def
        split: if_splits
        dest!: copy_extra_disks_loop_Return make_domain_xml_Return)
qed


lemma after_mac_again:
  assumes "vm_id st \<noteq> None"
  shows "steps (\<lambda>e. (prologue_event e \<or> start_event e) \<and> \<not> provisioning_event e) provisioned st tr
           (after_mac fuel env defn st tr)"
  using assms
  by (intro steps_after_mac) (simp_all add: start_not_provisioning provisioned_def)

lemma create_again:
  assumes set: "vm_id st \<noteq> None"
    and run: "create fuel env defn st tr = (r, st', tr')"
  shows "provisioned st' = provisioned st \<and>
     (\<exists>evs. tr' = tr @ evs \<and>
        list_all (\<lambda>e. (prologue_event e \<or> start_event e) \<and> \<not> provisioning_event e) evs)"
proof (cases "networks defn")
  case Nil
  with run show ?thesis by (auto simp: create_eq provisioned_def)
next
  case (Cons n ns)
  let ?st0 = "st \<lparr> common := set_common_state env defn (common st), primary_net := n \<rparr>"
  show ?thesis
  proof (cases "truthy (primary_mac st)")
    case True
    with run Cons have "after_mac fuel env defn ?st0 tr = (r, st', tr')"
      by (simp add: create_eq)
    with after_mac_again [of ?st0 tr fuel env defn] set show ?thesis
      by (auto simp: steps_def provisioned_def)
  next
    case False
    let ?draws = "[RandInt 0x00 0x7f, RandInt 0x00 0xff, RandInt 0x00 0xff]"
    from run Cons False obtain mac where
      tail: "after_mac fuel env defn (?st0 \<lparr> primary_mac := Some mac \<rparr>) (tr @ ?draws) = (r, st', tr')"
      by (simp add: create_eq generate_primary_mac_eq)
    from after_mac_again [of "?st0 \<lparr> primary_mac := Some mac \<rparr>" "tr @ ?draws" fuel env defn] set tail
    obtain evs where
      "provisioned st' = provisioned st" "tr' = (tr @ ?draws) @ evs"
      "list_all (\<lambda>e. (prologue_event e \<or> start_event e) \<and> \<not> provisioning_event e) evs"
      by (auto simp: steps_def provisioned_def)
    then show ?thesis
      by (intro conjI exI [of _ "?draws @ evs"]) simp_all
  qed
qed

lemma create_first:
  assumes fresh: "vm_id st = None"
    and run: "create fuel env defn st tr = (Return b, st', tr')"
  shows "vm_id st' = Some (vm_id_of st) \<and>
     (\<exists>evs. tr' = tr @ evs \<and>
        length (filter disk_copy_event evs) = 1 \<and>
        length (filter disk_create_event evs) = length (disks defn) \<and>
        length (filter render_event evs) = 1 \<and>
        length (filter registration_event evs) = 1)"
proof -
  from run obtain n ns where nets: "networks defn = n # ns"
    by (cases "networks defn") (auto simp: create_eq)
  let ?st0 = "st \<lparr> common := set_common_state env defn (common st), primary_net := n \<rparr>"
  from mac_step [of ?st0 env tr] obtain sta evsa where
    a: "(if \<not> truthy (primary_mac st) then generate_primary_mac env ?st0 tr else (Return (), ?st0, tr)) =
       (Return (), sta, tr @ evsa)"
    and pa: "list_all prologue_event evsa" "vm_id sta = None" "depl sta = depl st" "name sta = name st"
    using fresh by auto
  from key_step [of sta env "tr @ evsa"] obtain stb evsb where
    b: "(if \<not> truthy (client_public_key sta) then create_key_pair env sta (tr @ evsa)
          else (Return (), sta, tr @ evsa)) = (Return (), stb, (tr @ evsa) @ evsb)"
    and pb: "list_all prologue_event evsb" "vm_id stb = None" "depl stb = depl st" "name stb = name st"
    using pa by auto
  from run nets a b pb(2) obtain stc trc where
    c: "provision env defn stb ((tr @ evsa) @ evsb) = (Return (), stc, trc)"
    and d: "start fuel env stc trc = (Return (), st', tr')"
    by (auto simp: create_eq after_mac_def bind_Return_iff)
  from provision_Return [OF c] pb obtain evsc where
    pc: "vm_id stc = Some (vm_id_of st)" "trc = ((tr @ evsa) @ evsb) @ evsc"
      "length (filter disk_copy_event evsc) = 1"
      "length (filter disk_create_event evsc) = length (disks defn)"
      "length (filter render_event evsc) = 1"
      "length (filter registration_event evsc) = 1"
    by (auto simp: vm_id_of_def)
  have "steps start_event vm_id stc trc (start fuel env stc trc)"
    by (rule steps_start) simp_all
  with d obtain evsd where
    pd: "vm_id st' = vm_id stc" "tr' = trc @ evsd" "list_all start_event evsd"
    by (auto simp: steps_def)
  have quiet: "list_all (\<lambda>e. \<not> provisioning_event e) (evsa @ evsb)"
    "list_all (\<lambda>e. \<not> provisioning_event e) evsd"
    using pa(1) pb(1) pd(3) prologue_not_provisioning start_not_provisioning
    by (auto simp: list_all_iff)
  have "tr' = tr @ ((evsa @ evsb) @ evsc @ evsd)"
    using pc(2) pd(2) by simp
  moreover have "length (filter disk_copy_event ((evsa @ evsb) @ evsc @ evsd)) = 1"
    "length (filter disk_create_event ((evsa @ evsb) @ evsc @ evsd)) = length (disks defn)"
    "length (filter render_event ((evsa @ evsb) @ evsc @ evsd)) = 1"
    "length (filter registration_event ((evsa @ evsb) @ evsc @ evsd)) = 1"
    using pc no_counted_events [OF quiet(1)] no_counted_events [OF quiet(2)]
    by (simp_all del: append_assoc)
  ultimately show ?thesis
    using pc(1) pd(1)
    by (intro conjI exI [of _ "(evsa @ evsb) @ evsc @ evsd"]) (simp_all del: append_assoc)
qed

text \<open>
  C1. On an identity with a \<open>vm_id\<close>, a call of \<open>create\<close> (with any definition, on any
  host, however it ends) adds only events of the prologue and of \<open>start\<close> to the
  trace, none of provisioning, and leaves \<open>vm_id\<close>, \<open>disk_path\<close>, \<open>extra_disks\<close> and
  \<open>domain_xml\<close> as they were. When a first \<open>create\<close> on a fresh identity has returned,
  it has set \<open>vm_id\<close>, copied the primary disk once, created one image for each extra
  disk, rendered the descriptor once and registered the domain once; with a second call
  after it, these counts are those of the two calls together.
\<close>

theorem create_twice_provisions_once:
  "(vm_id st \<noteq> None \<and> create fuel env defn st tr = (r, st', tr') \<longrightarrow>
      provisioned st' = provisioned st \<and>
      (\<exists>evs. tr' = tr @ evs \<and>
         list_all (\<lambda>e. (prologue_event e \<or> start_event e) \<and> \<not> provisioning_event e) evs)) \<and>
   (vm_id st = None \<and> create fuel env defn st tr = (Return b, st1, tr1) \<and>
    create fuel2 env2 defn2 st1 tr1 = (r2, st2, tr2) \<longrightarrow>
      vm_id st1 = Some (vm_id_of st) \<and> provisioned st2 = provisioned st1 \<and>
      (\<exists>evs1 evs2. tr1 = tr @ evs1 \<and> tr2 = tr @ evs1 @ evs2 \<and>
         list_all (\<lambda>e. \<not> provisioning_event e) evs2 \<and>
         length (filter disk_copy_event (evs1 @ evs2)) = 1 \<and>
         length (filter disk_create_event (evs1 @ evs2)) = length (disks defn) \<and>
         length (filter render_event (evs1 @ evs2)) = 1 \<and>
         length (filter registration_event (evs1 @ evs2)) = 1))"
proof (intro conjI impI)
  assume "vm_id st \<noteq> None \<and> create fuel env defn st tr = (r, st', tr')"
  then have "provisioned st' = provisioned st \<and>
      (\<exists>evs. tr' = tr @ evs \<and>
         list_all (\<lambda>e. (prologue_event e \<or> start_event e) \<and> \<not> provisioning_event e) evs)"
    using create_again by blast
  then show "provisioned st' = provisioned st"
    "\<exists>evs. tr' = tr @ evs \<and>
         list_all (\<lambda>e. (prologue_event e \<or> start_event e) \<and> \<not> provisioning_event e) evs"
    by simp_all
next
  assume h: "vm_id st = None \<and> create fuel env defn st tr = (Return b, st1, tr1) \<and>
    create fuel2 env2 defn2 st1 tr1 = (r2, st2, tr2)"
  from h create_first [of st fuel env defn tr b st1 tr1] obtain evs1 where
    f: "vm_id st1 = Some (vm_id_of st)" "tr1 = tr @ evs1"
      "length (filter disk_copy_event evs1) = 1"
      "length (filter disk_create_event evs1) = length (disks defn)"
      "length (filter render_event evs1) = 1"
      "length (filter registration_event evs1) = 1"
    by blast
  from f(1) h create_again [of st1 fuel2 env2 defn2 tr1 r2 st2 tr2] obtain evs2 where
    s: "provisioned st2 = provisioned st1" "tr2 = tr1 @ evs2"
      "list_all (\<lambda>e. (prologue_event e \<or> start_event e) \<and> \<not> provisioning_event e) evs2"
    by auto
  from s(3) have quiet: "list_all (\<lambda>e. \<not> provisioning_event e) evs2"
    by (simp add: list_all_iff)
  show "vm_id st1 = Some (vm_id_of st)" by (rule f(1))
  show "provisioned st2 = provisioned st1" by (rule s(1))
  show "\<exists>evs1 evs2. tr1 = tr @ evs1 \<and> tr2 = tr @ evs1 @ evs2 \<and>
         list_all (\<lambda>e. \<not> provisioning_event e) evs2 \<and>
         length (filter disk_copy_event (evs1 @ evs2)) = 1 \<and>
         length (filter disk_create_event (evs1 @ evs2)) = length (disks defn) \<and>
         length (filter render_event (evs1 @ evs2)) = 1 \<and>
         length (filter registration_event (evs1 @ evs2)) = 1"
    using f s(2) quiet no_counted_events [OF quiet]
    by (intro exI [of _ evs1] exI [of _ evs2]) simp
qed

subsection \<open>Rendering the descriptor\<close>

lemma brace_free_Nil [simp]: "brace_free []"
  by (simp add: brace_free_def)

lemma brace_free_Cons [simp]:
  "brace_free (c # s) \<longleftrightarrow> c \<noteq> CHR ''{'' \<and> c \<noteq> CHR ''}'' \<and> brace_free s"
  by (auto simp: brace_free_def)

lemma brace_free_append [simp]: "brace_free (s @ t) \<longleftrightarrow> brace_free s \<and> brace_free t"
  by (auto simp: brace_free_def)

lemma brace_free_join:
  "brace_free sep \<Longrightarrow> list_all brace_free xs \<Longrightarrow> brace_free (py_join sep xs)"
  by (induction sep xs rule: py_join.induct) simp_all

lemma format_from_literal:
  "brace_free s \<Longrightarrow>
   format_from Lit (s @ t) args = and_then (format_from Lit t args) (\<lambda>r. Inr (s @ r))"
proof (induction s)
  case Nil
  show ?case by (cases "format_from Lit t args") simp_all
next
  case (Cons c s)
  then show ?case
    by (cases "format_from Lit t args") simp_all
qed

lemma format_from_literal_end:
  "brace_free s \<Longrightarrow> format_from Lit s args = Inr s"
  using format_from_literal [of s "[]" args] by simp

lemma iface_eq:
  assumes "n = primary_net st \<longrightarrow> (\<exists>mac. primary_mac st = Some mac \<and> brace_free mac)"
  shows "iface st n =
     Inr (interface_element (py_str n) (if n = primary_net st then primary_mac st else None))"
proof (cases "n = primary_net st")
  case True
  with assms obtain mac where mac: "primary_mac st = Some mac" "brace_free mac" by blast
  with True show ?thesis
    by (simp add: iface_def maybe_mac_def interface_element_def py_format_def
        format_from_literal format_from_literal_end is_digit_def nat_of_digits_def)
next
  case False
  then show ?thesis
    by (simp add: iface_def maybe_mac_def interface_element_def py_format_def
        format_from_literal format_from_literal_end is_digit_def nat_of_digits_def)
qed

lemma disk_xml_eq: "disk_xml disk_name disk_state = Inr (disk_element disk_state)"
  by (simp add: disk_xml_def disk_element_def py_format_def
      format_from_literal_end is_digit_def nat_of_digits_def)

lemma disk_elements_eq:
  "map_raising (\<lambda>(disk_name, disk_state). disk_xml disk_name disk_state) ds =
     Inr (map (\<lambda>(disk_name, disk_state). disk_element disk_state) ds)"
  by (induction ds) (auto simp: disk_xml_eq)

lemma interface_elements_eq:
  assumes "primary_mac st = Some mac" "brace_free mac"
  shows "map_raising (iface st) nets =
     Inr (map (\<lambda>n. interface_element (py_str n) (if n = primary_net st then primary_mac st else None)) nets)"
  using assms by (induction nets) (simp_all add: iface_eq)

lemma interface_elements_alt:
  "interface_elements st defn =
     map (\<lambda>n. interface_element (py_str n) (if n = primary_net st then primary_mac st else None))
       (networks defn)"
  by (simp add: interface_elements_def mac_slots_def zip_map2 zip_same_conv_map comp_def)

lemma domain_format:
  assumes "brace_free disk_section" "brace_free iface_section" "brace_free devices" "brace_free domain"
  shows "py_format
     (py_join ''\<newline>''
            [''<domain type=\"kvm\">'',
             ''  <name>{0}</name>'',
             ''  <memory unit=\"MiB\">{1}</memory>'',
             ''  <vcpu>{4}</vcpu>'',
             ''  <cpu>'',
             ''    <topology sockets=\"1\" cores=\"{4}\" threads=\"1\"/>'',
             ''  </cpu>'',
             ''  <os>'',
             ''    <type arch=\"x86_64\">hvm</type>'',
             ''  </os>'',
             ''  <devices>'',
             ''    <emulator>{2}</emulator>'',
             ''    <disk type=\"file\" device=\"disk\">'',
             ''      <driver name=\"qemu\" type=\"qcow2\"/>'',
             ''      <source file=\"{3}\"/>'',
             ''      <target dev=\"hda\"/>'',
             ''    </disk>'',
             disk_section,
             iface_section,
             (if \<not> no_graphics then ''    <graphics type=\"sdl\" display=\":0.0\"/>'' else ''''),
             ''    <input type=\"keyboard\" bus=\"usb\"/>'',
             ''    <input type=\"mouse\" bus=\"usb\"/>'',
             devices,
             ''  </devices>'',
             domain,
             ''</domain>''])
     [vm, memory, qemu, disk, cpus] =
   Inr (descriptor vm memory qemu disk cpus [disk_section] [iface_section] no_graphics devices domain)"
  using assms
  by (cases no_graphics)
    (simp_all add: py_format_def descriptor_def format_from_literal format_from_literal_end
      is_digit_def nat_of_digits_def)

lemma descriptor_sections:
  "descriptor vm memory qemu disk cpus disk_elems iface_elems no_graphics devices domain =
   descriptor vm memory qemu disk cpus [py_join ''\<newline>'' disk_elems]
     [py_join ''\<newline>'' iface_elems] no_graphics devices domain"
  by (simp add: descriptor_def)

lemma brace_free_interface_element:
  "brace_free net \<Longrightarrow> (\<And>m. slot = Some m \<Longrightarrow> brace_free m) \<Longrightarrow>
   brace_free (interface_element net slot)"
  by (cases slot) (simp_all add: interface_element_def)

lemma brace_free_disk_element:
  "brace_free (imagePath d) \<Longrightarrow> brace_free (py_str (device d)) \<Longrightarrow> brace_free (disk_element d)"
  by (simp add: disk_element_def)

lemma mac_slots_count:
  "primary_mac st \<noteq> None \<Longrightarrow>
   length (filter (\<lambda>slot. slot \<noteq> None) (mac_slots st defn)) =
   length (filter (\<lambda>n. n = primary_net st) (networks defn))"
  unfolding mac_slots_def by (induction "networks defn" arbitrary: defn) (auto simp: filter_map comp_def)

lemma make_domain_xml_eq:
  assumes qemu: "find_executable_result env tr ''qemu-system-x86_64'' = Some qemu"
    and mac: "primary_mac st = Some mac" "brace_free mac"
    and nets: "list_all (\<lambda>n. brace_free (py_str n)) (networks defn)"
    and frags: "extra_devices defn = Some devices" "brace_free devices"
      "extra_domain defn = Some domain" "brace_free domain"
    and xdisks: "list_all (\<lambda>(k, d). brace_free (imagePath d) \<and> brace_free (py_str (device d)))
                   (extra_disks st)"
  shows "make_domain_xml env defn st tr =
           (Return (descriptor (vm_id_of st) (py_str (memory_size defn)) qemu (disk_path_of defn st)
                      (py_str (vcpu defn)) (map (\<lambda>(k, d). disk_element d) (extra_disks st))
                      (interface_elements st defn) (headless defn) devices domain),
            st, tr @ [FindExecutable ''qemu-system-x86_64''])"
proof -
  have d: "brace_free (py_join ''\<newline>'' (map (\<lambda>(k, d). disk_element d) (extra_disks st)))"
    using xdisks
    by (intro brace_free_join) (auto simp: list_all_iff brace_free_disk_element)
  have i: "brace_free (py_join ''\<newline>'' (interface_elements st defn))"
    using nets mac
    by (intro brace_free_join)
      (auto simp: list_all_iff interface_elements_alt intro!: brace_free_interface_element)
  have "domain_fmt defn (map (\<lambda>(k, d). disk_element d) (extra_disks st)) (interface_elements st defn) =
      Inr (py_join ''\<newline>''
            [''<domain type=\"kvm\">'',
             ''  <name>{0}</name>'',
             ''  <memory unit=\"MiB\">{1}</memory>'',
             ''  <vcpu>{4}</vcpu>'',
             ''  <cpu>'',
             ''    <topology sockets=\"1\" cores=\"{4}\" threads=\"1\"/>'',
             ''  </cpu>'',
             ''  <os>'',
             ''    <type arch=\"x86_64\">hvm</type>'',
             ''  </os>'',
             ''  <devices>'',
             ''    <emulator>{2}</emulator>'',
             ''    <disk type=\"file\" device=\"disk\">'',
             ''      <driver name=\"qemu\" type=\"qcow2\"/>'',
             ''      <source file=\"{3}\"/>'',
             ''      <target dev=\"hda\"/>'',
             ''    </disk>'',
             py_join ''\<newline>'' (map (\<lambda>(k, d). disk_element d) (extra_disks st)),
             py_join ''\<newline>'' (interface_elements st defn),
             (if \<not> headless defn then ''    <graphics type=\"sdl\" display=\":0.0\"/>'' else ''''),
             ''    <input type=\"keyboard\" bus=\"usb\"/>'',
             ''    <input type=\"mouse\" bus=\"usb\"/>'',
             devices,
             ''  </devices>'',
             domain,
             ''</domain>''])"
    using frags by (simp add: domain_fmt_def del: py_join.simps)
  then show ?thesis
    using qemu interface_elements_eq [OF mac, of "networks defn"]
    by (simp add: make_domain_xml_def find_executable_def disk_elements_eq
        interface_elements_alt [symmetric] domain_format [OF d i frags(2) frags(4)]
        descriptor_sections [symmetric] del: py_join.simps)
qed

text \<open>
  C7 (amended). When the MAC, the network names, the paths and devices of the extra
  disks and the two raw XML fragments hold no brace, \<open>_make_domain_xml\<close> returns the
  descriptor with one interface element for each network of the definition, in list
  order; an element carries the MAC line, with \<open>primary_mac\<close> as its address, exactly
  when its network equals \<open>primary_net\<close>. So as many elements carry it as
  \<open>primary_net\<close> occurs in the list: exactly one when the networks are distinct and
  \<open>primary_net\<close> is among them.
\<close>

theorem make_domain_xml_interfaces:
  assumes qemu: "find_executable_result env tr ''qemu-system-x86_64'' = Some qemu"
    and mac: "primary_mac st = Some mac" "brace_free mac"
    and nets: "list_all (\<lambda>n. brace_free (py_str n)) (networks defn)"
    and frags: "extra_devices defn = Some devices" "brace_free devices"
      "extra_domain defn = Some domain" "brace_free domain"
    and xdisks: "list_all (\<lambda>(k, d). brace_free (imagePath d) \<and> brace_free (py_str (device d)))
                   (extra_disks st)"
  shows "make_domain_xml env defn st tr =
           (Return (descriptor (vm_id_of st) (py_str (memory_size defn)) qemu (disk_path_of defn st)
                      (py_str (vcpu defn)) (map (\<lambda>(k, d). disk_element d) (extra_disks st))
                      (interface_elements st defn) (headless defn) devices domain),
            st, tr @ [FindExecutable ''qemu-system-x86_64'']) \<and>
         length (interface_elements st defn) = length (networks defn) \<and>
         (\<forall>i<length (networks defn).
            interface_elements st defn ! i =
              interface_element (py_str (networks defn ! i))
                (if networks defn ! i = primary_net st then Some mac else None)) \<and>
         length (filter (\<lambda>slot. slot \<noteq> None) (mac_slots st defn)) =
           length (filter (\<lambda>n. n = primary_net st) (networks defn)) \<and>
         (distinct (networks defn) \<and> primary_net st \<in> set (networks defn) \<longrightarrow>
            length (filter (\<lambda>slot. slot \<noteq> None) (mac_slots st defn)) = 1)"
proof (intro conjI impI)
  show "make_domain_xml env defn st tr =
           (Return (descriptor (vm_id_of st) (py_str (memory_size defn)) qemu (disk_path_of defn st)
                      (py_str (vcpu defn)) (map (\<lambda>(k, d). disk_element d) (extra_disks st))
                      (interface_elements st defn) (headless defn) devices domain),
            st, tr @ [FindExecutable ''qemu-system-x86_64''])"
    by (rule make_domain_xml_eq [OF assms])
next
  show "length (interface_elements st defn) = length (networks defn)"
    by (simp add: interface_elements_alt)
next
  show "\<forall>i<length (networks defn).
            interface_elements st defn ! i =
              interface_element (py_str (networks defn ! i))
                (if networks defn ! i = primary_net st then Some mac else None)"
    using mac by (simp add: interface_elements_alt)
next
  show count: "length (filter (\<lambda>slot. slot \<noteq> None) (mac_slots st defn)) =
           length (filter (\<lambda>n. n = primary_net st) (networks defn))"
    by (rule mac_slots_count) (simp add: mac)
  assume "distinct (networks defn) \<and> primary_net st \<in> set (networks defn)"
  then have "length (filter (\<lambda>n. n = primary_net st) (networks defn)) = 1"
    by (auto simp: distinct_length_filter)
  with count show "length (filter (\<lambda>slot. slot \<noteq> None) (mac_slots st defn)) = 1"
    by simp
qed

subsection \<open>A concrete deployment, created twice\<close>

text \<open>
  The example host builds the base image, has a writable image directory, defines and starts
  the domain, and reports a lease for the generated MAC. The first \<^verbatim>\<open>create\<close> provisions;
  the second finds \<^verbatim>\<open>vm_id\<close> set and the domain running.
\<close>

lemma descriptor_nonempty:
  "descriptor vm memory qemu disk cpus disk_elems iface_elems no_graphics devices domain \<noteq> []"
  by (simp add: descriptor_def)

lemma first_create_example:
  "create 1 host_env example_defn example_state [] = (Return True, created_state, created_trace)"
  by (simp add: example_defs run_defs created_state_def created_trace_def example_descriptor_def
      image_build_event_def fmt_02x_def py_split_lease_table descriptor_nonempty is_space_def
      interface_elements_def mac_slots_def
      make_domain_xml_eq [where qemu = "''/usr/bin/qemu-system-x86_64''"
        and mac = "''52:54:00:2a:2a:2a''" and devices = "''''" and domain = "''''"])

lemma second_create_example:
  "create 1 host_env example_defn created_state created_trace =
     (Return True, created_state,
      created_trace @
      [CheckOutput [''virsh'', ''-c'', ''qemu:///system'', ''list''],
       Log ''connecting...'',
       CheckOutput [''virsh'', ''-c'', ''qemu:///system'', ''net-dhcp-leases'', ''--network'', ''default'']])"
  by (simp add: example_defs run_defs created_state_def created_trace_def example_descriptor_def
      image_build_event_def py_split_lease_table descriptor_nonempty)

theorem create_twice_provisions_once_witness:
  "vm_id example_state = None \<and> vm_id created_state \<noteq> None \<and>
   create 1 host_env example_defn example_state [] = (Return True, created_state, created_trace) \<and>
   create 1 host_env example_defn created_state created_trace =
     (Return True, created_state,
      created_trace @
      [CheckOutput [''virsh'', ''-c'', ''qemu:///system'', ''list''],
       Log ''connecting...'',
       CheckOutput [''virsh'', ''-c'', ''qemu:///system'', ''net-dhcp-leases'', ''--network'', ''default'']]) \<and>
   vm_id created_state = Some (vm_id_of example_state) \<and>
   length (disks example_defn) = 1 \<and>
   (\<exists>evs1 evs2.
      created_trace = [] @ evs1 \<and>
      created_trace @
      [CheckOutput [''virsh'', ''-c'', ''qemu:///system'', ''list''],
       Log ''connecting...'',
       CheckOutput [''virsh'', ''-c'', ''qemu:///system'', ''net-dhcp-leases'', ''--network'', ''default'']] =
        [] @ evs1 @ evs2 \<and>
      list_all (\<lambda>e. \<not> provisioning_event e) evs2 \<and>
      length (filter disk_copy_event (evs1 @ evs2)) = 1 \<and>
      length (filter disk_create_event (evs1 @ evs2)) = 1 \<and>
      length (filter render_event (evs1 @ evs2)) = 1 \<and>
      length (filter registration_event (evs1 @ evs2)) = 1)"
proof -
  have fresh: "vm_id example_state = None" and set: "vm_id created_state \<noteq> None"
    and n: "length (disks example_defn) = 1"
    by (simp_all add: example_defs created_state_def)
  note first = first_create_example
  note second = second_create_example
  from create_twice_provisions_once
    [where st = example_state and fuel = 1 and env = host_env and defn = example_defn
       and tr = "[]" and b = True and ?st1.0 = created_state and ?tr1.0 = created_trace
       and ?fuel2.0 = 1 and ?env2.0 = host_env and ?defn2.0 = example_defn
       and ?r2.0 = "Return True" and ?st2.0 = created_state
       and ?tr2.0 = "created_trace @
          [CheckOutput [''virsh'', ''-c'', ''qemu:///system'', ''list''],
           Log ''connecting...'',
           CheckOutput [''virsh'', ''-c'', ''qemu:///system'', ''net-dhcp-leases'', ''--network'', ''default'']]",
     THEN conjunct2, THEN mp, OF conjI [OF fresh conjI [OF first second]]]
  show ?thesis
    using fresh set first second n by simp
qed

subsection \<open>Interfaces of concrete definitions\<close>

theorem make_domain_xml_interfaces_witness:
  "make_domain_xml host_env two_nets_defn defined_state [] =
     (Return (descriptor ''nixops-d1-web'' ''1024'' ''/usr/bin/qemu-system-x86_64''
                ''/var/lib/libvirt/images/nixops-d1-web.img'' ''2''
                [disk_element \<lparr> device = Some ''vdb'',
                                imagePath = ''/var/lib/libvirt/images/nixops-d1-web-data.img'' \<rparr>]
                [interface_element ''default'' (Some ''52:54:00:2a:2a:2a''),
                 interface_element ''isolated'' None]
                True '''' ''''),
      defined_state, [FindExecutable ''qemu-system-x86_64'']) \<and>
   networks two_nets_defn = [Some ''default'', Some ''isolated''] \<and>
   primary_net defined_state = Some ''default'' \<and>
   mac_slots defined_state two_nets_defn = [Some ''52:54:00:2a:2a:2a'', None] \<and>
   length (filter (\<lambda>slot. slot \<noteq> None) (mac_slots defined_state two_nets_defn)) = 1"
proof -
  have "make_domain_xml host_env two_nets_defn defined_state [] =
           (Return (descriptor (vm_id_of defined_state) (py_str (memory_size two_nets_defn))
                      ''/usr/bin/qemu-system-x86_64'' (disk_path_of two_nets_defn defined_state)
                      (py_str (vcpu two_nets_defn))
                      (map (\<lambda>(k, d). disk_element d) (extra_disks defined_state))
                      (interface_elements defined_state two_nets_defn) (headless two_nets_defn) '''' ''''),
            defined_state, [] @ [FindExecutable ''qemu-system-x86_64'']) \<and>
         length (interface_elements defined_state two_nets_defn) = length (networks two_nets_defn) \<and>
         (\<forall>i<length (networks two_nets_defn).
            interface_elements defined_state two_nets_defn ! i =
              interface_element (py_str (networks two_nets_defn ! i))
                (if networks two_nets_defn ! i = primary_net defined_state
                 then Some ''52:54:00:2a:2a:2a'' else None)) \<and>
         length (filter (\<lambda>slot. slot \<noteq> None) (mac_slots defined_state two_nets_defn)) =
           length (filter (\<lambda>n. n = primary_net defined_state) (networks two_nets_defn)) \<and>
         (distinct (networks two_nets_defn) \<and> primary_net defined_state \<in> set (networks two_nets_defn) \<longrightarrow>
            length (filter (\<lambda>slot. slot \<noteq> None) (mac_slots defined_state two_nets_defn)) = 1)"
    by (rule make_domain_xml_interfaces) (simp_all add: example_defs two_nets_defn_def py_str_def)
  then show ?thesis
    by (simp add: example_defs two_nets_defn_def py_str_def vm_id_of_def disk_path_of_def
        interface_elements_def mac_slots_def)
qed

text \<open>
  C7 as stated fails. With the same network listed twice, both interface elements of
  the rendered descriptor carry the MAC. (And a network whose name is the field
  \<^verbatim>\<open>{0}\<close> is rendered under the name of the domain, not its own: the elements pass
  through \<^verbatim>\<open>format\<close> a second time, hence the condition on braces.)
\<close>

theorem make_domain_xml_interfaces_counterexample:
  "networks same_net_twice_defn = [Some ''default'', Some ''default''] \<and>
   primary_net defined_state = Some ''default'' \<and>
   map_raising (iface defined_state) (networks same_net_twice_defn) =
     Inr [''    <interface type=\"network\">\<newline><mac address=\"52:54:00:2a:2a:2a\" />\<newline>      <source network=\"default\"/>\<newline>      <model type=\"virtio\"/>\<newline>    </interface>'',
          ''    <interface type=\"network\">\<newline><mac address=\"52:54:00:2a:2a:2a\" />\<newline>      <source network=\"default\"/>\<newline>      <model type=\"virtio\"/>\<newline>    </interface>''] \<and>
   make_domain_xml host_env same_net_twice_defn defined_state [] =
     (Return (descriptor ''nixops-d1-web'' ''1024'' ''/usr/bin/qemu-system-x86_64''
                ''/var/lib/libvirt/images/nixops-d1-web.img'' ''2''
                [disk_element \<lparr> device = Some ''vdb'',
                                imagePath = ''/var/lib/libvirt/images/nixops-d1-web-data.img'' \<rparr>]
                [''    <interface type=\"network\">\<newline><mac address=\"52:54:00:2a:2a:2a\" />\<newline>      <source network=\"default\"/>\<newline>      <model type=\"virtio\"/>\<newline>    </interface>'',
                 ''    <interface type=\"network\">\<newline><mac address=\"52:54:00:2a:2a:2a\" />\<newline>      <source network=\"default\"/>\<newline>      <model type=\"virtio\"/>\<newline>    </interface>'']
                True '''' ''''),
      defined_state, [FindExecutable ''qemu-system-x86_64'']) \<and>
   make_domain_xml host_env brace_net_defn defined_state [] =
     (Return (descriptor ''nixops-d1-web'' ''1024'' ''/usr/bin/qemu-system-x86_64''
                ''/var/lib/libvirt/images/nixops-d1-web.img'' ''2''
                [disk_element \<lparr> device = Some ''vdb'',
                                imagePath = ''/var/lib/libvirt/images/nixops-d1-web-data.img'' \<rparr>]
                [''    <interface type=\"network\">\<newline>\<newline>      <source network=\"nixops-d1-web\"/>\<newline>      <model type=\"virtio\"/>\<newline>    </interface>'']
                True '''' ''''),
      defined_state, [FindExecutable ''qemu-system-x86_64''])"
proof (intro conjI)
  show "networks same_net_twice_defn = [Some ''default'', Some ''default'']"
    "primary_net defined_state = Some ''default''"
    by (simp_all add: example_defs same_net_twice_defn_def)
  have twice: "map_raising (iface defined_state) (networks same_net_twice_defn) =
     Inr [interface_element ''default'' (Some ''52:54:00:2a:2a:2a''),
          interface_element ''default'' (Some ''52:54:00:2a:2a:2a'')]"
    by (simp add: example_defs same_net_twice_defn_def py_str_def iface_eq)
  then show "map_raising (iface defined_state) (networks same_net_twice_defn) =
     Inr [''    <interface type=\"network\">\<newline><mac address=\"52:54:00:2a:2a:2a\" />\<newline>      <source network=\"default\"/>\<newline>      <model type=\"virtio\"/>\<newline>    </interface>'',
          ''    <interface type=\"network\">\<newline><mac address=\"52:54:00:2a:2a:2a\" />\<newline>      <source network=\"default\"/>\<newline>      <model type=\"virtio\"/>\<newline>    </interface>'']"
    by (simp add: interface_element_def)
  have "make_domain_xml host_env same_net_twice_defn defined_state [] =
     (Return (descriptor ''nixops-d1-web'' ''1024'' ''/usr/bin/qemu-system-x86_64''
                ''/var/lib/libvirt/images/nixops-d1-web.img'' ''2''
                [disk_element \<lparr> device = Some ''vdb'',
                                imagePath = ''/var/lib/libvirt/images/nixops-d1-web-data.img'' \<rparr>]
                [interface_element ''default'' (Some ''52:54:00:2a:2a:2a''),
                 interface_element ''default'' (Some ''52:54:00:2a:2a:2a'')]
                True '''' ''''),
      defined_state, [FindExecutable ''qemu-system-x86_64''])"
    by (simp add: example_defs same_net_twice_defn_def py_str_def vm_id_of_def disk_path_of_def
        interface_elements_def mac_slots_def
        make_domain_xml_eq [where qemu = "''/usr/bin/qemu-system-x86_64''"
          and mac = "''52:54:00:2a:2a:2a''" and devices = "''''" and domain = "''''"])
  then show "make_domain_xml host_env same_net_twice_defn defined_state [] =
     (Return (descriptor ''nixops-d1-web'' ''1024'' ''/usr/bin/qemu-system-x86_64''
                ''/var/lib/libvirt/images/nixops-d1-web.img'' ''2''
                [disk_element \<lparr> device = Some ''vdb'',
                                imagePath = ''/var/lib/libvirt/images/nixops-d1-web-data.img'' \<rparr>]
                [''    <interface type=\"network\">\<newline><mac address=\"52:54:00:2a:2a:2a\" />\<newline>      <source network=\"default\"/>\<newline>      <model type=\"virtio\"/>\<newline>    </interface>'',
                 ''    <interface type=\"network\">\<newline><mac address=\"52:54:00:2a:2a:2a\" />\<newline>      <source network=\"default\"/>\<newline>      <model type=\"virtio\"/>\<newline>    </interface>'']
                True '''' ''''),
      defined_state, [FindExecutable ''qemu-system-x86_64''])"
    by (simp add: interface_element_def)
  show "make_domain_xml host_env brace_net_defn defined_state [] =
     (Return (descriptor ''nixops-d1-web'' ''1024'' ''/usr/bin/qemu-system-x86_64''
                ''/var/lib/libvirt/images/nixops-d1-web.img'' ''2''
                [disk_element \<lparr> device = Some ''vdb'',
                                imagePath = ''/var/lib/libvirt/images/nixops-d1-web-data.img'' \<rparr>]
                [''    <interface type=\"network\">\<newline>\<newline>      <source network=\"nixops-d1-web\"/>\<newline>      <model type=\"virtio\"/>\<newline>    </interface>'']
                True '''' ''''),
      defined_state, [FindExecutable ''qemu-system-x86_64''])"
    by code_simp
qed

end
